theory Spec2Isabelle
  imports Complex_Main
begin

section \<open>Errors, samples and arrays\<close>

text \<open>
  The exceptions that the modelled methods of \<^verbatim>\<open>AudioSignal\<close> can raise. A raise is the
  value \<open>Inl e\<close>; a method that returns normally yields \<open>Inr\<close> of the updated object
  (and of the returned value, where there is one). The fields an object is left with
  when a method raises half-way are not part of the result.
\<close>

datatype error =
  AudioSignalException | ValueError | TypeError | IndexError | AttributeError
  | ZeroDivisionError | OverflowError

text \<open>
  A float64 value is a finite number, read as the real number it stands for, an
  infinity or nan. \<^verbatim>\<open>np.isfinite\<close> holds of the finite values only.
\<close>

datatype sample = Finite real | PlusInf | MinusInf | NaN

fun is_finite :: "sample \<Rightarrow> bool" where
  "is_finite (Finite x) = True"
| "is_finite v = False"

text \<open>
  The arithmetic of float64 is not spelled out: the sum, the product and the quotient
  of two floats, which round and overflow, and the conversion of a Python integer to
  a float, which raises for an integer beyond the range of float64, are parameters of
  the methods that compute with floats. What is proved of these methods holds for
  every choice of the four operations, so for those of IEEE 754.
\<close>

record float64_ops =
  f_add :: "sample \<Rightarrow> sample \<Rightarrow> sample"
  f_mul :: "sample \<Rightarrow> sample \<Rightarrow> sample"
  f_div :: "sample \<Rightarrow> sample \<Rightarrow> sample"
  f_of_int :: "int \<Rightarrow> error + sample"

text \<open>
  A numpy array: its shape and its elements in row-major order. An array of the
  program always has \<open>length (elems a) = prod_list (shape a)\<close>.
\<close>

record 'a ndarray =
  shape :: "nat list"
  elems :: "'a list"

definition ndim :: "'a ndarray \<Rightarrow> nat" where
  "ndim a = length (shape a)"

definition size_nd :: "'a ndarray \<Rightarrow> nat" where
  "size_nd a = prod_list (shape a)"

definition wf_ndarray :: "'a ndarray \<Rightarrow> bool" where
  "wf_ndarray a = (length (elems a) = prod_list (shape a))"

text \<open>What a caller can pass where an array is expected: \<^verbatim>\<open>None\<close>, an array, or
  an object of another type.\<close>

datatype 'a pyarg = PyNone | PyArray "'a ndarray" | PyOther

text \<open>
  The array stored in \<^verbatim>\<open>_audio_data\<close>. The only assignments to that field are in the
  setter of \<^verbatim>\<open>audio_data\<close>, which stores an array of exactly two dimensions,
  \<open>(n_channels, n_samples)\<close>; channel \<open>i\<close> is the block of \<open>n_samp\<close> elements that
  starts at \<open>i * n_samp\<close>.
\<close>

record audio2d =
  n_chan :: nat
  n_samp :: nat
  samples :: "sample list"

definition to_ndarray :: "audio2d \<Rightarrow> sample ndarray" where
  "to_ndarray a = \<lparr>shape = [n_chan a, n_samp a], elems = samples a\<rparr>"

definition at2 :: "audio2d \<Rightarrow> nat \<Rightarrow> nat \<Rightarrow> sample" where
  "at2 a i j = samples a ! (i * n_samp a + j)"

text \<open>\<^verbatim>\<open>value.T\<close> on a 2-D array of shape \<open>(r, c)\<close>: entry \<open>(j, i)\<close> of the result is
  entry \<open>(i, j)\<close> of the argument.\<close>

definition transpose_elems :: "nat \<Rightarrow> nat \<Rightarrow> 'a list \<Rightarrow> 'a list" where
  "transpose_elems r c xs = concat (map (\<lambda>j. map (\<lambda>i. xs ! (i * c + j)) [0..<r]) [0..<c])"

text \<open>
  A bound of a Python slice over an axis of length \<open>len\<close>: a negative bound counts
  from the end, and every bound is clipped to \<open>0 .. len\<close>.
\<close>

definition slice_bound :: "nat \<Rightarrow> int \<Rightarrow> nat" where
  "slice_bound len i = (if i < 0 then nat (max (i + int len) 0) else min (nat i) len)"

text \<open>\<^verbatim>\<open>a[:, start:end]\<close> on a stored audio array.\<close>

definition slice_samples :: "audio2d \<Rightarrow> int \<Rightarrow> int \<Rightarrow> audio2d" where
  "slice_samples a start end =
     (let lo = slice_bound (n_samp a) start;
          hi = slice_bound (n_samp a) end;
          w = hi - lo
      in \<lparr>n_chan = n_chan a, n_samp = w,
          samples = concat (map (\<lambda>i. take w (drop (i * n_samp a + lo) (samples a)))
                                [0..<n_chan a])\<rparr>)"

subsection \<open>Broadcasting arithmetic of numpy\<close>

text \<open>
  The shape of \<^verbatim>\<open>a * b\<close> and \<^verbatim>\<open>a + b\<close>: the shapes are aligned at their last axis,
  and two aligned extents must be equal or one of them 1; otherwise numpy raises
  \<^verbatim>\<open>ValueError\<close>. The function works on the reversed shapes.
\<close>

fun broadcast_rev :: "nat list \<Rightarrow> nat list \<Rightarrow> nat list option" where
  "broadcast_rev [] ys = Some ys"
| "broadcast_rev xs [] = Some xs"
| "broadcast_rev (x # xs) (y # ys) =
     (if x = y \<or> y = 1 then map_option (Cons x) (broadcast_rev xs ys)
      else if x = 1 then map_option (Cons y) (broadcast_rev xs ys)
      else None)"

definition broadcast_shapes :: "nat list \<Rightarrow> nat list \<Rightarrow> nat list option" where
  "broadcast_shapes s t = map_option rev (broadcast_rev (rev s) (rev t))"

fun unravel :: "nat list \<Rightarrow> nat \<Rightarrow> nat list" where
  "unravel [] k = []"
| "unravel (d # ds) k = (k div prod_list ds) # unravel ds (k mod prod_list ds)"

fun ravel :: "nat list \<Rightarrow> nat list \<Rightarrow> nat" where
  "ravel (d # ds) (i # is) = i * prod_list ds + ravel ds is"
| "ravel ds is = 0"

text \<open>The flat position, in an operand of shape \<open>sh\<close>, of the element that takes part
  in entry \<open>idx\<close> of a result of shape \<open>out\<close>: an axis of extent 1 is repeated.\<close>

definition src_index :: "nat list \<Rightarrow> nat list \<Rightarrow> nat list \<Rightarrow> nat" where
  "src_index sh out idx =
     (let pad = replicate (length out - length sh) 1 @ sh
      in ravel pad (map (\<lambda>(d, i). if d = 1 then 0 else i) (zip pad idx)))"

definition np_binop ::
    "('a \<Rightarrow> 'b \<Rightarrow> 'c) \<Rightarrow> 'a ndarray \<Rightarrow> 'b ndarray \<Rightarrow> error + 'c ndarray" where
  "np_binop f a b =
     (case broadcast_shapes (shape a) (shape b) of
        None \<Rightarrow> Inl ValueError
      | Some out \<Rightarrow>
          Inr \<lparr>shape = out,
               elems = map (\<lambda>k. let idx = unravel out k
                                 in f (elems a ! src_index (shape a) out idx)
                                      (elems b ! src_index (shape b) out idx))
                           [0..<prod_list out]\<rparr>)"

section \<open>The AudioSignal object\<close>

text \<open>
  \<^verbatim>\<open>STFTParams\<close> is a named tuple whose three fields default to \<^verbatim>\<open>None\<close>.
\<close>

record STFTParams =
  window_length :: "int option"
  hop_length :: "int option"
  window_type :: "string option"

text \<open>
  The fields set in \<^verbatim>\<open>__init__\<close>. A field whose Python name starts with an underscore
  has the prefix \<open>priv_\<close> here. \<^verbatim>\<open>copy.deepcopy\<close> of an object is the same record.
\<close>

record AudioSignal =
  path_to_input_file :: "string option"
  priv_audio_data :: "audio2d option"
  original_signal_length :: "int option"
  priv_stft_data :: "complex ndarray option"
  priv_sample_rate :: int
  priv_active_start :: "int option"
  priv_active_end :: "int option"
  label :: "string option"
  priv_stft_params :: STFTParams

definition sample_rate :: "AudioSignal \<Rightarrow> int" where
  "sample_rate s = priv_sample_rate s"

definition stft_data :: "AudioSignal \<Rightarrow> complex ndarray option" where
  "stft_data s = priv_stft_data s"

text \<open>\<^verbatim>\<open>_signal_length\<close>: the length of the whole stored signal, or \<^verbatim>\<open>None\<close>.\<close>

definition priv_signal_length :: "AudioSignal \<Rightarrow> int option" where
  "priv_signal_length s =
     (case priv_audio_data s of None \<Rightarrow> None | Some a \<Rightarrow> Some (int (n_samp a)))"

text \<open>The getter of \<^verbatim>\<open>audio_data\<close>: the stored array restricted to the active region.\<close>

definition audio_data :: "AudioSignal \<Rightarrow> audio2d option" where
  "audio_data s =
     (case priv_audio_data s of
        None \<Rightarrow> None
      | Some a \<Rightarrow>
          (let end0 = int (n_samp a);
               end1 = (case priv_active_end s of
                         Some e \<Rightarrow> if e < end0 then e else end0
                       | None \<Rightarrow> end0);
               start1 = (case priv_active_start s of
                           Some b \<Rightarrow> if b > 0 then b else 0
                         | None \<Rightarrow> 0)
           in Some (slice_samples a start1 end1)))"

definition set_active_region_to_default :: "AudioSignal \<Rightarrow> AudioSignal" where
  "set_active_region_to_default s =
     s\<lparr>priv_active_start := Some 0, priv_active_end := priv_signal_length s\<rparr>"

text \<open>
  The setter of \<^verbatim>\<open>audio_data\<close>. \<^verbatim>\<open>None\<close> clears the field and leaves the active
  region as it is. An array is checked for finiteness, transposed when it has more
  than one axis and its first extent exceeds its second, rejected when it has more
  than two axes, and given a leading axis of extent 1 when it has fewer than two; then
  the active region is reset. An array without any axis gets shape \<open>(1,)\<close>, and the
  reset of the active region raises on reading its second extent.
\<close>

definition audio_data_setter :: "sample pyarg \<Rightarrow> AudioSignal \<Rightarrow> error + AudioSignal" where
  "audio_data_setter v s =
     (case v of
        PyNone \<Rightarrow> Inr (s\<lparr>priv_audio_data := None\<rparr>)
      | PyOther \<Rightarrow> Inl AudioSignalException
      | PyArray value \<Rightarrow>
          if \<not> list_all is_finite (elems value) then Inl AudioSignalException
          else (case shape value of
                  [] \<Rightarrow> Inl IndexError
                | [n] \<Rightarrow>
                    Inr (set_active_region_to_default
                      (s\<lparr>priv_audio_data :=
                           Some \<lparr>n_chan = 1, n_samp = n, samples = elems value\<rparr>\<rparr>))
                | [r, c] \<Rightarrow>
                    if r > c
                    then Inr (set_active_region_to_default
                      (s\<lparr>priv_audio_data :=
                           Some \<lparr>n_chan = c, n_samp = r,
                                 samples = transpose_elems r c (elems value)\<rparr>\<rparr>))
                    else Inr (set_active_region_to_default
                      (s\<lparr>priv_audio_data :=
                           Some \<lparr>n_chan = r, n_samp = c, samples = elems value\<rparr>\<rparr>))
                | _ \<Rightarrow> Inl AudioSignalException))"

text \<open>
  The setter of \<^verbatim>\<open>stft_data\<close>: a 2-D array gets a trailing channel axis of extent 1,
  arrays of one axis or of more than three are rejected.
\<close>

definition stft_data_setter :: "complex pyarg \<Rightarrow> AudioSignal \<Rightarrow> error + AudioSignal" where
  "stft_data_setter v s =
     (case v of
        PyNone \<Rightarrow> Inr (s\<lparr>priv_stft_data := None\<rparr>)
      | PyOther \<Rightarrow> Inl AudioSignalException
      | PyArray value \<Rightarrow>
          if ndim value = 1 then Inl AudioSignalException
          else (let value1 = (if ndim value = 2
                              then value\<lparr>shape := shape value @ [1]\<rparr> else value)
                in if ndim value1 > 3 then Inl AudioSignalException
                   else Inr (s\<lparr>priv_stft_data := Some value1\<rparr>)))"

text \<open>\<^verbatim>\<open>signal_length\<close>: the number of samples in the active region, or the recorded
  original length when there is no sample data.\<close>

definition signal_length :: "AudioSignal \<Rightarrow> int option" where
  "signal_length s =
     (case audio_data s of
        None \<Rightarrow> original_signal_length s
      | Some a \<Rightarrow> Some (int (n_samp a)))"

text \<open>\<^verbatim>\<open>num_channels\<close>: from the sample data, else from the third axis of the
  spectral data (reading it raises when the array has fewer axes), else \<^verbatim>\<open>None\<close>.\<close>

definition num_channels :: "AudioSignal \<Rightarrow> error + nat option" where
  "num_channels s =
     (case audio_data s of
        Some a \<Rightarrow> Inr (Some (n_chan a))
      | None \<Rightarrow>
          (case stft_data s of
             Some z \<Rightarrow> if 2 < length (shape z) then Inr (Some (shape z ! 2)) else Inl IndexError
           | None \<Rightarrow> Inr None))"

definition active_region_is_default :: "AudioSignal \<Rightarrow> bool" where
  "active_region_is_default s =
     (priv_active_start s = Some 0 \<and> priv_active_end s = priv_signal_length s)"

text \<open>
  \<^verbatim>\<open>set_active_region\<close>: the start is raised to 0 when negative, the end is lowered to
  the stored length when not below it. Comparing the end with the \<^verbatim>\<open>None\<close> length
  of an object without sample data raises.
\<close>

definition set_active_region :: "int \<Rightarrow> int \<Rightarrow> AudioSignal \<Rightarrow> error + AudioSignal" where
  "set_active_region start end s =
     (case priv_signal_length s of
        None \<Rightarrow> Inl TypeError
      | Some len \<Rightarrow>
          Inr (s\<lparr>priv_active_start := Some (if start \<ge> 0 then start else 0),
                 priv_active_end := Some (if end < len then end else len)\<rparr>))"

section \<open>Transform parameters\<close>

text \<open>What can be assigned to \<^verbatim>\<open>stft_params\<close>: \<^verbatim>\<open>None\<close>, an \<^verbatim>\<open>STFTParams\<close> tuple
  (always true as a condition, having three fields), or an object of another type,
  of which only its truth value is read.\<close>

datatype params_arg = ParamsNone | Params STFTParams | ParamsOther bool

text \<open>
  The setter of \<^verbatim>\<open>stft_params\<close>. Three things it uses are not part of the sources
  at hand and are parameters: \<open>check_COLA\<close> is \<^verbatim>\<open>scipy.signal.check_COLA\<close>, which
  returns a truth value or raises on arguments it cannot use; \<open>WINDOW_DEFAULT\<close> and
  \<open>WINDOW_HANN\<close> are the constants of those names; \<open>default_win_len\<close> is the value
  of \<^verbatim>\<open>int(2 ** np.ceil(np.log2(constants.DEFAULT_WIN_LEN_PARAM * self.sample_rate)))\<close>.
  The new parameters are stored before \<open>check_COLA\<close> is called with the window
  type, the window length and the hop length, and what \<open>check_COLA\<close> returns is
  not read.
\<close>

definition stft_params_setter ::
    "(string \<Rightarrow> int \<Rightarrow> int \<Rightarrow> error + bool) \<Rightarrow> string \<Rightarrow> string \<Rightarrow> int \<Rightarrow>
     params_arg \<Rightarrow> AudioSignal \<Rightarrow> error + AudioSignal" where
  "stft_params_setter check_COLA WINDOW_DEFAULT WINDOW_HANN default_win_len value s =
     (case value of
        ParamsOther True \<Rightarrow> Inl ValueError
      | _ \<Rightarrow>
          (let default_hop_len = default_win_len div 4;
               given = (case value of
                          Params p \<Rightarrow> p
                        | _ \<Rightarrow> \<lparr>window_length = None, hop_length = None,
                                 window_type = None\<rparr>);
               wl = (case window_length given of None \<Rightarrow> default_win_len | Some w \<Rightarrow> w);
               hl = (case hop_length given of None \<Rightarrow> default_hop_len | Some h \<Rightarrow> h);
               wt = (case window_type given of None \<Rightarrow> WINDOW_DEFAULT | Some t \<Rightarrow> t);
               s1 = s\<lparr>priv_stft_params :=
                       \<lparr>window_length = Some wl, hop_length = Some hl,
                        window_type = Some wt\<rparr>\<rparr>;
               window_type1 = (if wt = ''sqrt_hann'' then WINDOW_HANN else wt)
           in case check_COLA window_type1 wl hl of
                Inl e \<Rightarrow> Inl e
              | Inr _ \<Rightarrow> Inr s1))"

section \<open>Copies, masks and the inverse transform\<close>

text \<open>
  \<^verbatim>\<open>make_copy_with_stft_data\<close>. With \<open>verbose\<close> the shape of the current spectral
  data is read, which raises when there is none (the warnings themselves have no
  effect on the result).
\<close>

definition make_copy_with_stft_data ::
    "complex ndarray \<Rightarrow> bool \<Rightarrow> AudioSignal \<Rightarrow> error + AudioSignal" where
  "make_copy_with_stft_data stft verbose s =
     (if verbose \<and> stft_data s = None then Inl AttributeError
      else (case stft_data_setter (PyArray stft) s of
              Inl e \<Rightarrow> Inl e
            | Inr new_signal \<Rightarrow>
                audio_data_setter PyNone
                  (new_signal\<lparr>original_signal_length := original_signal_length s\<rparr>)))"

text \<open>
  A mask object: \<^verbatim>\<open>apply_mask\<close> reads its attributes \<^verbatim>\<open>shape\<close> and \<^verbatim>\<open>mask\<close>.
  The class \<^verbatim>\<open>MaskBase\<close> is not part of the sources at hand, so both are fields.
\<close>

record mask_obj =
  mask_shape :: "nat list"
  mask :: "real ndarray"

datatype mask_arg = NotMaskBase | MaskBase mask_obj

text \<open>
  \<^verbatim>\<open>apply_mask\<close> returns the object and, unless \<open>overwrite\<close>, the new object with
  the masked spectrum. A mask is let through when its shape is that of the spectral
  data, or when its shape without its last extent is.
\<close>

definition apply_mask ::
    "mask_arg \<Rightarrow> bool \<Rightarrow> AudioSignal \<Rightarrow> error + (AudioSignal \<times> AudioSignal option)" where
  "apply_mask m overwrite s =
     (case m of
        NotMaskBase \<Rightarrow> Inl AudioSignalException
      | MaskBase mo \<Rightarrow>
          (case stft_data s of
             None \<Rightarrow> Inl AudioSignalException
           | Some z \<Rightarrow>
               if mask_shape mo \<noteq> shape z \<and> \<not> (butlast (mask_shape mo) = shape z)
               then Inl AudioSignalException
               else (case np_binop (\<lambda>c x. c * complex_of_real x) z (mask mo) of
                       Inl e \<Rightarrow> Inl e
                     | Inr masked_stft \<Rightarrow>
                         if overwrite
                         then (case stft_data_setter (PyArray masked_stft) s of
                                 Inl e \<Rightarrow> Inl e
                               | Inr s1 \<Rightarrow> Inr (s1, None))
                         else (case make_copy_with_stft_data masked_stft False s of
                                 Inl e \<Rightarrow> Inl e
                               | Inr new_signal \<Rightarrow> Inr (s, Some new_signal)))))"

text \<open>
  \<^verbatim>\<open>istft\<close>. The parameter \<open>inv_kernel\<close> stands for the per-channel calls of
  \<^verbatim>\<open>scipy.signal.istft\<close> and the stacking of their results into a 2-D array, given
  the object and the effective window length, hop length and window type. The
  result is the object and the returned signal.
\<close>

definition istft ::
    "(AudioSignal \<Rightarrow> int option \<Rightarrow> int option \<Rightarrow> string option \<Rightarrow> error + audio2d) \<Rightarrow>
     int option \<Rightarrow> int option \<Rightarrow> string option \<Rightarrow> bool \<Rightarrow> int option \<Rightarrow>
     AudioSignal \<Rightarrow> error + (AudioSignal \<times> audio2d)" where
  "istft inv_kernel window_len hop_len window_ty overwrite truncate_to_length s =
     (case stft_data s of
        None \<Rightarrow> Inl AudioSignalException
      | Some z \<Rightarrow>
          if size_nd z = 0 then Inl AudioSignalException
          else (let wl = (case window_len of
                            None \<Rightarrow> window_length (priv_stft_params s) | Some w \<Rightarrow> Some w);
                    hl = (case hop_len of
                            None \<Rightarrow> hop_length (priv_stft_params s) | Some h \<Rightarrow> Some h);
                    wt = (case window_ty of
                            None \<Rightarrow> window_type (priv_stft_params s) | Some t \<Rightarrow> Some t)
                in case inv_kernel s wl hl wt of
                     Inl e \<Rightarrow> Inl e
                   | Inr calculated_signal \<Rightarrow>
                       (let ttl = (case truncate_to_length of
                                     Some t \<Rightarrow> Some t
                                   | None \<Rightarrow>
                                       (case signal_length s of
                                          Some n \<Rightarrow> Some n
                                        | None \<Rightarrow> original_signal_length s));
                            calculated1 = (case ttl of
                                             None \<Rightarrow> calculated_signal
                                           | Some t \<Rightarrow>
                                               if t > 0
                                               then slice_samples calculated_signal 0 t
                                               else calculated_signal)
                        in if overwrite \<or> audio_data s = None
                           then (case audio_data_setter
                                        (PyArray (to_ndarray calculated1)) s of
                                   Inl e \<Rightarrow> Inl e
                                 | Inr s1 \<Rightarrow> Inr (s1, calculated1))
                           else Inr (s, calculated1))))"

section \<open>Utilities that reshape the sample data\<close>

text \<open>\<^verbatim>\<open>_verify_audio\<close> and \<^verbatim>\<open>_verify_audio_arithmetic\<close>: the checks that two
  objects can be combined. Neither reads the active region.\<close>

definition priv_verify_audio :: "AudioSignal \<Rightarrow> AudioSignal \<Rightarrow> error + unit" where
  "priv_verify_audio other s =
     (case num_channels s of
        Inl e \<Rightarrow> Inl e
      | Inr n1 \<Rightarrow>
          (case num_channels other of
             Inl e \<Rightarrow> Inl e
           | Inr n2 \<Rightarrow>
               if n1 \<noteq> n2 then Inl AudioSignalException
               else if sample_rate s \<noteq> sample_rate other then Inl AudioSignalException
               else Inr ()))"

definition priv_verify_audio_arithmetic :: "AudioSignal \<Rightarrow> AudioSignal \<Rightarrow> error + unit" where
  "priv_verify_audio_arithmetic other s =
     (case priv_verify_audio other s of
        Inl e \<Rightarrow> Inl e
      | Inr u \<Rightarrow>
          if signal_length s \<noteq> signal_length other then Inl AudioSignalException
          else Inr ())"

text \<open>\<^verbatim>\<open>np.concatenate((a, b), axis=1)\<close> on two 2-D arrays, which must have the same
  number of rows.\<close>

definition np_concatenate :: "audio2d \<Rightarrow> audio2d \<Rightarrow> error + audio2d" where
  "np_concatenate a b =
     (if n_chan a \<noteq> n_chan b then Inl ValueError
      else Inr \<lparr>n_chan = n_chan a, n_samp = n_samp a + n_samp b,
                samples = concat (map (\<lambda>i. take (n_samp a) (drop (i * n_samp a) (samples a))
                                          @ take (n_samp b) (drop (i * n_samp b) (samples b)))
                                      [0..<n_chan a])\<rparr>)"

text \<open>\<^verbatim>\<open>np.pad(a, ((0, 0), (before, after)), 'constant')\<close>: zeros on both sides of
  every row; a negative width is rejected.\<close>

definition np_pad :: "audio2d \<Rightarrow> int \<Rightarrow> int \<Rightarrow> error + audio2d" where
  "np_pad a before after =
     (if before < 0 \<or> after < 0 then Inl ValueError
      else Inr \<lparr>n_chan = n_chan a, n_samp = nat before + n_samp a + nat after,
                samples = concat (map (\<lambda>i. replicate (nat before) (Finite 0)
                                          @ take (n_samp a) (drop (i * n_samp a) (samples a))
                                          @ replicate (nat after) (Finite 0))
                                      [0..<n_chan a])\<rparr>)"

text \<open>\<^verbatim>\<open>concat\<close> (the name \<open>concat\<close> is taken by the list function): after
  \<^verbatim>\<open>_verify_audio\<close>, the other object's active slice is put after the object's own
  and the result is assigned to \<^verbatim>\<open>audio_data\<close>.\<close>

definition concat_signal :: "AudioSignal \<Rightarrow> AudioSignal \<Rightarrow> error + AudioSignal" where
  "concat_signal other s =
     (case priv_verify_audio other s of
        Inl e \<Rightarrow> Inl e
      | Inr u \<Rightarrow>
          (case (audio_data s, audio_data other) of
             (Some a, Some b) \<Rightarrow>
               (case np_concatenate a b of
                  Inl e \<Rightarrow> Inl e
                | Inr joined \<Rightarrow> audio_data_setter (PyArray (to_ndarray joined)) s)
           | _ \<Rightarrow> Inl ValueError))"

text \<open>\<^verbatim>\<open>truncate_samples\<close>, \<^verbatim>\<open>truncate_seconds\<close>, \<^verbatim>\<open>crop_signal\<close> and \<^verbatim>\<open>zero_pad\<close>
  first raise unless the active region is default, then assign a slice or a padded
  copy of the sample data to \<^verbatim>\<open>audio_data\<close>.\<close>

definition truncate_samples :: "int \<Rightarrow> AudioSignal \<Rightarrow> error + AudioSignal" where
  "truncate_samples n_samples s =
     (if \<not> active_region_is_default s then Inl AudioSignalException
      else (case signal_length s of
              None \<Rightarrow> Inl TypeError
            | Some len \<Rightarrow>
                (let n1 = (if n_samples > len then len else n_samples)
                 in case audio_data s of
                      None \<Rightarrow> Inl TypeError
                    | Some a \<Rightarrow>
                        audio_data_setter (PyArray (to_ndarray (slice_samples a 0 n1))) s)))"

text \<open>\<^verbatim>\<open>int(x)\<close> on a finite float: the integer towards zero.\<close>

definition py_int :: "real \<Rightarrow> int" where
  "py_int x = (if x \<ge> 0 then \<lfloor>x\<rfloor> else \<lceil>x\<rceil>)"

text \<open>
  The argument of \<^verbatim>\<open>truncate_seconds\<close> is a float or an integer. The number of
  samples is \<^verbatim>\<open>int(n_seconds * self.sample_rate)\<close>, computed before
  \<^verbatim>\<open>truncate_samples\<close> is called: for a float the sample rate is converted and the
  product is that of float64, and \<^verbatim>\<open>int\<close> raises \<^verbatim>\<open>ValueError\<close> on nan and
  \<^verbatim>\<open>OverflowError\<close> on an infinity; for an integer the product is exact.
\<close>

datatype seconds_arg = SecondsFloat sample | SecondsInt int

definition truncate_seconds ::
    "float64_ops \<Rightarrow> seconds_arg \<Rightarrow> AudioSignal \<Rightarrow> error + AudioSignal" where
  "truncate_seconds ops n_seconds s =
     (case n_seconds of
        SecondsInt k \<Rightarrow> truncate_samples (k * sample_rate s) s
      | SecondsFloat x \<Rightarrow>
          (case f_of_int ops (sample_rate s) of
             Inl e \<Rightarrow> Inl e
           | Inr rate \<Rightarrow>
               (case f_mul ops x rate of
                  Finite p \<Rightarrow> truncate_samples (py_int p) s
                | NaN \<Rightarrow> Inl ValueError
                | _ \<Rightarrow> Inl OverflowError)))"

definition crop_signal :: "int \<Rightarrow> int \<Rightarrow> AudioSignal \<Rightarrow> error + AudioSignal" where
  "crop_signal before after s =
     (if \<not> active_region_is_default s then Inl AudioSignalException
      else (case signal_length s of
              None \<Rightarrow> Inl TypeError
            | Some num_samples \<Rightarrow>
                (case audio_data s of
                   None \<Rightarrow> Inl TypeError
                 | Some a \<Rightarrow>
                     (case audio_data_setter
                             (PyArray (to_ndarray
                                (slice_samples a before (num_samples - after)))) s of
                        Inl e \<Rightarrow> Inl e
                      | Inr s1 \<Rightarrow> Inr (set_active_region_to_default s1)))))"

definition zero_pad :: "int \<Rightarrow> int \<Rightarrow> AudioSignal \<Rightarrow> error + AudioSignal" where
  "zero_pad before after s =
     (if \<not> active_region_is_default s then Inl AudioSignalException
      else (case audio_data s of
              None \<Rightarrow> Inl ValueError
            | Some a \<Rightarrow>
                (case np_pad a before after of
                   Inl e \<Rightarrow> Inl e
                 | Inr padded \<Rightarrow> audio_data_setter (PyArray (to_ndarray padded)) s)))"

section \<open>Gain and arithmetic\<close>

text \<open>
  A scalar operand: a float, a Python integer, or an object that is no instance of
  \<^verbatim>\<open>numbers.Real\<close>. Of such an object only the outcome of \<^verbatim>\<open>float(value)\<close> is
  kept, a float or the exception raised (\<^verbatim>\<open>float('2')\<close> is 2.0, \<^verbatim>\<open>float('a')\<close>
  raises \<^verbatim>\<open>ValueError\<close>, \<^verbatim>\<open>float(None)\<close> raises \<^verbatim>\<open>TypeError\<close>). Other instances of
  \<^verbatim>\<open>numbers.Real\<close>, such as fractions, are not among the operands.
\<close>

datatype pynum = PyFloat sample | PyInt int | NotReal "error + sample"

text \<open>The float that stands for a scalar: \<^verbatim>\<open>float(value)\<close>, which is also the
  float with which numpy multiplies a float64 array by a Python number.\<close>

fun py_float :: "float64_ops \<Rightarrow> pynum \<Rightarrow> error + sample" where
  "py_float ops (PyFloat x) = Inr x"
| "py_float ops (PyInt n) = f_of_int ops n"
| "py_float ops (NotReal r) = r"

text \<open>\<^verbatim>\<open>apply_gain\<close>: the float64 product of the active slice and the scalar is
  assigned to \<^verbatim>\<open>audio_data\<close>; the method returns the object.\<close>

definition apply_gain :: "float64_ops \<Rightarrow> pynum \<Rightarrow> AudioSignal \<Rightarrow> error + AudioSignal" where
  "apply_gain ops v s =
     (case v of
        NotReal r \<Rightarrow> Inl AudioSignalException
      | _ \<Rightarrow>
          (case audio_data s of
             None \<Rightarrow> Inl TypeError
           | Some a \<Rightarrow>
               (case py_float ops v of
                  Inl e \<Rightarrow> Inl e
                | Inr g \<Rightarrow>
                    audio_data_setter
                      (PyArray (to_ndarray
                         (a\<lparr>samples := map (\<lambda>x. f_mul ops x g) (samples a)\<rparr>)))
                      s)))"

definition imul :: "float64_ops \<Rightarrow> pynum \<Rightarrow> AudioSignal \<Rightarrow> error + AudioSignal" where
  "imul ops v s = apply_gain ops v s"

text \<open>\<^verbatim>\<open>__idiv__\<close> (and \<^verbatim>\<open>__itruediv__\<close>, which calls it): the gain is
  \<^verbatim>\<open>1 / float(value)\<close>, where \<^verbatim>\<open>float\<close> may raise and the division raises on a
  zero.\<close>

definition idiv :: "float64_ops \<Rightarrow> pynum \<Rightarrow> AudioSignal \<Rightarrow> error + AudioSignal" where
  "idiv ops v s =
     (case py_float ops v of
        Inl e \<Rightarrow> Inl e
      | Inr f \<Rightarrow>
          if f = Finite 0 then Inl ZeroDivisionError
          else apply_gain ops (PyFloat (f_div ops (Finite 1) f)) s)"

text \<open>The right operand of \<^verbatim>\<open>add\<close>: an integer or another object.\<close>

datatype add_operand = OtherInt int | OtherSignal AudioSignal

text \<open>\<^verbatim>\<open>add\<close> returns the object itself for an integer operand, and otherwise a copy
  of the object whose sample data is the float64 sum of the two active slices.\<close>

definition add :: "float64_ops \<Rightarrow> add_operand \<Rightarrow> AudioSignal \<Rightarrow> error + AudioSignal" where
  "add ops other s =
     (case other of
        OtherInt n \<Rightarrow> Inr s
      | OtherSignal other_signal \<Rightarrow>
          (case priv_verify_audio_arithmetic other_signal s of
             Inl e \<Rightarrow> Inl e
           | Inr u \<Rightarrow>
               (case (audio_data s, audio_data other_signal) of
                  (Some a, Some b) \<Rightarrow>
                    (case np_binop (f_add ops) (to_ndarray a) (to_ndarray b) of
                       Inl e \<Rightarrow> Inl e
                     | Inr summed \<Rightarrow> audio_data_setter (PyArray summed) s)
                | _ \<Rightarrow> Inl TypeError)))"

text \<open>\<^verbatim>\<open>subtract\<close>: a copy of the other object is multiplied by the integer \<open>-1\<close> in
  place and added.\<close>

definition subtract :: "float64_ops \<Rightarrow> AudioSignal \<Rightarrow> AudioSignal \<Rightarrow> error + AudioSignal" where
  "subtract ops other s =
     (case priv_verify_audio_arithmetic other s of
        Inl e \<Rightarrow> Inl e
      | Inr u \<Rightarrow>
          (case imul ops (PyInt (- 1)) other of
             Inl e \<Rightarrow> Inl e
           | Inr other_copy \<Rightarrow> add ops (OtherSignal other_copy) s))"

text \<open>\<^verbatim>\<open>__add__\<close> and \<^verbatim>\<open>__radd__\<close> both call \<^verbatim>\<open>add\<close> with the other operand.\<close>

definition dunder_add ::
    "float64_ops \<Rightarrow> add_operand \<Rightarrow> AudioSignal \<Rightarrow> error + AudioSignal" where
  "dunder_add ops other s = add ops other s"

definition dunder_radd ::
    "float64_ops \<Rightarrow> add_operand \<Rightarrow> AudioSignal \<Rightarrow> error + AudioSignal" where
  "dunder_radd ops other s = add ops other s"

text \<open>What the setter of \<^verbatim>\<open>audio_data\<close> stores when it is given a 2-D array of finite
  values: the array, or its transpose when it has more rows than columns.\<close>

definition stored_form :: "audio2d \<Rightarrow> audio2d" where
  "stored_form b =
     (if n_chan b > n_samp b
      then \<lparr>n_chan = n_samp b, n_samp = n_chan b,
            samples = transpose_elems (n_chan b) (n_samp b) (samples b)\<rparr>
      else b)"

section \<open>A fresh object\<close>

text \<open>The fields as \<^verbatim>\<open>__init__\<close> sets them before any data is loaded, with the
  sample rate it chooses at its end and no transform parameters yet.\<close>

definition init_fields :: "int \<Rightarrow> AudioSignal" where
  "init_fields rate =
     \<lparr>path_to_input_file = None, priv_audio_data = None, original_signal_length = None,
      priv_stft_data = None, priv_sample_rate = rate, priv_active_start = None,
      priv_active_end = None, label = None,
      priv_stft_params = \<lparr>window_length = None, hop_length = None, window_type = None\<rparr>\<rparr>"

section \<open>The window of the data model\<close>

text \<open>The bounds of the active region as the data model states them: with sample
  data present, \<open>0 \<le> active_start \<le> active_end \<le> total_length\<close>.\<close>

definition spec_active_window :: "AudioSignal \<Rightarrow> bool" where
  "spec_active_window s =
     (case (priv_audio_data s, priv_active_start s, priv_active_end s) of
        (Some a, Some b, Some e) \<Rightarrow> 0 \<le> b \<and> b \<le> e \<and> e \<le> int (n_samp a)
      | _ \<Rightarrow> False)"

section \<open>Example objects\<close>

text \<open>Two objects as \<^verbatim>\<open>load_audio_from_array\<close> leaves them at a sample rate of
  44100: one channel with the samples 1, 2, 3, 4, and two channels with the samples
  1, 2, 3, 4 and 5, 6, 7, 8.\<close>

definition example_mono :: AudioSignal where
  "example_mono =
     (init_fields 44100)
       \<lparr>priv_audio_data :=
          Some \<lparr>n_chan = 1, n_samp = 4, samples = map Finite [1, 2, 3, 4]\<rparr>,
        original_signal_length := Some 4,
        priv_active_start := Some 0, priv_active_end := Some 4\<rparr>"

definition example_stereo :: AudioSignal where
  "example_stereo =
     (init_fields 44100)
       \<lparr>priv_audio_data :=
          Some \<lparr>n_chan = 2, n_samp = 4, samples = map Finite [1, 2, 3, 4, 5, 6, 7, 8]\<rparr>,
        original_signal_length := Some 4,
        priv_active_start := Some 0, priv_active_end := Some 4\<rparr>"

text \<open>An object with sample data of length 0, as the setter of \<^verbatim>\<open>audio_data\<close> stores a
  1-D array without elements, and with spectral data of two bins, one frame and one
  channel.\<close>

definition example_empty_audio :: AudioSignal where
  "example_empty_audio =
     (init_fields 44100)
       \<lparr>priv_audio_data := Some \<lparr>n_chan = 1, n_samp = 0, samples = []\<rparr>,
        original_signal_length := Some 0,
        priv_stft_data := Some \<lparr>shape = [2, 1, 1], elems = [1, 2]\<rparr>,
        priv_active_start := Some 0, priv_active_end := Some 0\<rparr>"

text \<open>
  An arithmetic for the examples: exact on finite operands, and nan when an operand
  is not finite. It agrees with float64 on every operation of the examples: their
  finite operands and exact results are integers below \<open>2 ^ 53\<close> or halves of
  such, which float64 represents, and their only other operand is nan.
\<close>

fun exact_binop :: "(real \<Rightarrow> real \<Rightarrow> real) \<Rightarrow> sample \<Rightarrow> sample \<Rightarrow> sample" where
  "exact_binop f (Finite x) (Finite y) = Finite (f x y)"
| "exact_binop f x y = NaN"

definition exact_ops :: float64_ops where
  "exact_ops =
     \<lparr>f_add = exact_binop (+), f_mul = exact_binop (*), f_div = exact_binop (/),
      f_of_int = (\<lambda>n. Inr (Finite (real_of_int n)))\<rparr>"

text \<open>An inverse kernel that returns the signal \<open>c\<close> for every object and every
  choice of transform parameters.\<close>

definition example_kernel ::
    "audio2d \<Rightarrow> AudioSignal \<Rightarrow> int option \<Rightarrow> int option \<Rightarrow> string option
     \<Rightarrow> error + audio2d" where
  "example_kernel c s wl hl wt = Inr c"

section \<open>Facts about slices and the setter\<close>

lemma n_chan_slice_samples: "n_chan (slice_samples a st en) = n_chan a"
  by (simp add: slice_samples_def Let_def)

lemma n_samp_slice_samples:
  "n_samp (slice_samples a st en) = slice_bound (n_samp a) en - slice_bound (n_samp a) st"
  by (simp add: slice_samples_def Let_def)

lemma set_slice_samples: "set (samples (slice_samples a st en)) \<subseteq> set (samples a)"
proof -
  have "set (take w (drop k xs)) \<subseteq> set xs" for w k and xs :: "sample list"
    by (meson set_drop_subset set_take_subset subset_trans)
  then show ?thesis
    by (auto simp: slice_samples_def Let_def)
qed

lemma finite_slice_samples:
  "list_all is_finite (samples a) \<Longrightarrow> list_all is_finite (samples (slice_samples a st en))"
  using set_slice_samples [of a st en] by (auto simp: list_all_iff)

lemma audio_data_default:
  assumes "priv_audio_data s = Some a" "active_region_is_default s"
  shows "audio_data s = Some (slice_samples a 0 (int (n_samp a)))"
  using assms
  by (simp add: audio_data_def active_region_is_default_def priv_signal_length_def Let_def)

lemma signal_length_default:
  assumes "priv_audio_data s = Some a" "active_region_is_default s"
  shows "signal_length s = Some (int (n_samp a))"
  using assms
  by (simp add: signal_length_def audio_data_default n_samp_slice_samples slice_bound_def)

lemma nth_concat_uniform:
  assumes "j < c" "i < r"
  shows "concat (map (\<lambda>j. map (f j) [0..<r]) [0..<c]) ! (j * r + i) = f j i"
  using assms
proof (induction c arbitrary: j)
  case 0
  then show ?case by simp
next
  case (Suc c)
  have len: "length (concat (map (\<lambda>j. map (f j) [0..<r]) [0..<c])) = c * r"
    by (induction c) simp_all
  show ?case
  proof (cases "j < c")
    case True
    have "j * r + i < Suc j * r"
      using Suc.prems(2) by simp
    also have "Suc j * r \<le> c * r"
      using True by (simp only: Suc_leI mult_le_mono1)
    finally have "j * r + i < c * r" .
    with Suc.IH [OF True Suc.prems(2)] len show ?thesis
      by (simp add: nth_append)
  next
    case False
    with Suc.prems have "j = c" by simp
    with len Suc.prems show ?thesis by (simp add: nth_append)
  qed
qed

lemma transpose_elems_nth:
  assumes "i < r" "j < c"
  shows "transpose_elems r c xs ! (j * r + i) = xs ! (i * c + j)"
  unfolding transpose_elems_def using assms by (simp add: nth_concat_uniform)

lemma n_samp_whole_slice: "n_samp (slice_samples a 0 (int (n_samp a))) = n_samp a"
  by (simp add: n_samp_slice_samples slice_bound_def)

lemma int_slice_bound: "0 \<le> i \<Longrightarrow> int (slice_bound len i) = min i (int len)"
  by (simp add: slice_bound_def)

lemma in_take_drop: "x \<in> set (take w (drop k xs)) \<Longrightarrow> x \<in> set xs"
  by (meson in_set_takeD in_set_dropD)

lemma finite_np_pad:
  assumes "list_all is_finite (samples a)" "np_pad a b1 a1 = Inr p"
  shows "list_all is_finite (samples p)"
proof -
  have "set (samples p) \<subseteq> insert (Finite 0) (set (samples a))"
    using assms(2)
    by (auto simp: np_pad_def split: if_splits dest: in_take_drop)
  with assms(1) show ?thesis
    by (auto simp: list_all_iff)
qed

lemma finite_np_concatenate:
  assumes "list_all is_finite (samples a)" "list_all is_finite (samples b)"
    and "np_concatenate a b = Inr j"
  shows "list_all is_finite (samples j)"
proof -
  have "set (samples j) \<subseteq> set (samples a) \<union> set (samples b)"
    using assms(3)
    by (auto simp: np_concatenate_def split: if_splits dest: in_take_drop)
  with assms(1,2) show ?thesis
    by (auto simp: list_all_iff)
qed

lemma broadcast_rev_same: "broadcast_rev xs xs = Some xs"
  by (induction xs) simp_all

lemma broadcast_shapes_same: "broadcast_shapes sh sh = Some sh"
  by (simp add: broadcast_shapes_def broadcast_rev_same)

lemma np_binop_same_shape:
  assumes "shape a = shape b"
  shows "\<exists>r. np_binop f a b = Inr r \<and> shape r = shape a"
  using assms by (simp add: np_binop_def broadcast_shapes_same)

lemma stored_form_shape:
  "n_samp (stored_form b) = max (n_chan b) (n_samp b)"
  "n_chan (stored_form b) = min (n_chan b) (n_samp b)"
  by (simp_all add: stored_form_def)

lemma audio_data_setter_stored:
  assumes "list_all is_finite (samples b)"
  shows "audio_data_setter (PyArray (to_ndarray b)) s =
           Inr (s\<lparr>priv_audio_data := Some (stored_form b), priv_active_start := Some 0,
                  priv_active_end := Some (int (n_samp (stored_form b)))\<rparr>)"
  using assms
  by (simp add: audio_data_setter_def to_ndarray_def set_active_region_to_default_def
      priv_signal_length_def stored_form_def)

lemma audio_data_setter_rejects:
  assumes "\<not> list_all is_finite (samples b)"
  shows "audio_data_setter (PyArray (to_ndarray b)) s = Inl AudioSignalException"
  using assms by (simp add: audio_data_setter_def to_ndarray_def)

lemma setter_then_length:
  assumes "list_all is_finite (samples b)"
  shows "\<exists>s'. audio_data_setter (PyArray (to_ndarray b)) s = Inr s'
           \<and> priv_audio_data s' = Some (stored_form b) \<and> active_region_is_default s'
           \<and> signal_length s' = Some (int (max (n_chan b) (n_samp b)))"
proof -
  let ?s' = "s\<lparr>priv_audio_data := Some (stored_form b), priv_active_start := Some 0,
                priv_active_end := Some (int (n_samp (stored_form b)))\<rparr>"
  have d: "active_region_is_default ?s'"
    by (simp add: active_region_is_default_def priv_signal_length_def)
  have "priv_audio_data ?s' = Some (stored_form b)" by simp
  from signal_length_default [OF this d] d audio_data_setter_stored [OF assms, of s]
  show ?thesis by (simp add: stored_form_shape)
qed

lemma guards_when_not_default:
  assumes "\<not> active_region_is_default s"
  shows "truncate_samples n s = Inl AudioSignalException"
    and "crop_signal b1 a1 s = Inl AudioSignalException"
    and "zero_pad b1 a1 s = Inl AudioSignalException"
  using assms
  by (simp_all add: truncate_samples_def crop_signal_def zero_pad_def)

lemma truncate_samples_length:
  assumes "priv_audio_data s = Some a" "list_all is_finite (samples a)"
    and "active_region_is_default s" "0 \<le> n"
  shows "\<exists>s'. truncate_samples n s = Inr s'
           \<and> signal_length s' = Some (max (int (n_chan a)) (min n (int (n_samp a))))"
proof -
  let ?w = "slice_samples a 0 (int (n_samp a))"
  define n1 where "n1 = (if n > int (n_samp a) then int (n_samp a) else n)"
  let ?b = "slice_samples ?w 0 n1"
  have n1: "n1 = min n (int (n_samp a))" "0 \<le> n1"
    using assms(4) by (simp_all add: n1_def)
  have run: "truncate_samples n s = audio_data_setter (PyArray (to_ndarray ?b)) s"
    using assms(1,3)
    by (simp add: truncate_samples_def signal_length_default audio_data_default n1_def)
  have fin: "list_all is_finite (samples ?b)"
    using assms(2) by (intro finite_slice_samples)
  have "int (n_samp ?b) = int (slice_bound (n_samp a) n1)"
    by (simp add: n_samp_slice_samples [of ?w] n_samp_whole_slice slice_bound_def [of _ 0])
  then have len: "int (n_samp ?b) = min n (int (n_samp a))"
    using n1 by (simp add: int_slice_bound)
  have "int (max (n_chan ?b) (n_samp ?b)) = max (int (n_chan ?b)) (int (n_samp ?b))"
    by (rule of_nat_max)
  then have "int (max (n_chan ?b) (n_samp ?b))
               = max (int (n_chan a)) (min n (int (n_samp a)))"
    unfolding len n_chan_slice_samples .
  with setter_then_length [OF fin, of s] run
  show ?thesis by auto
qed

lemma crop_signal_length:
  assumes "priv_audio_data s = Some a" "list_all is_finite (samples a)"
    and "active_region_is_default s" "0 \<le> b1" "0 \<le> a1" "b1 + a1 \<le> int (n_samp a)"
  shows "\<exists>s'. crop_signal b1 a1 s = Inr s'
           \<and> signal_length s' = Some (max (int (n_chan a)) (int (n_samp a) - b1 - a1))"
proof -
  let ?w = "slice_samples a 0 (int (n_samp a))"
  let ?b = "slice_samples ?w b1 (int (n_samp a) - a1)"
  have fin: "list_all is_finite (samples ?b)"
    using assms(2) by (intro finite_slice_samples)
  have len: "int (n_samp ?b) = int (n_samp a) - b1 - a1"
    using assms(4,5,6)
    by (simp add: n_samp_slice_samples [of ?w] n_samp_whole_slice slice_bound_def)
  have "int (max (n_chan ?b) (n_samp ?b)) = max (int (n_chan ?b)) (int (n_samp ?b))"
    by (rule of_nat_max)
  then have m: "int (max (n_chan ?b) (n_samp ?b))
             = max (int (n_chan a)) (int (n_samp a) - b1 - a1)"
    unfolding len n_chan_slice_samples .
  obtain s1 where s1: "audio_data_setter (PyArray (to_ndarray ?b)) s = Inr s1"
    and d1: "active_region_is_default s1"
    and l1: "signal_length s1 = Some (int (max (n_chan ?b) (n_samp ?b)))"
    using setter_then_length [OF fin, of s] by blast
  have same: "set_active_region_to_default s1 = s1"
    using d1 by (simp add: set_active_region_to_default_def active_region_is_default_def)
  have run: "crop_signal b1 a1 s = Inr (set_active_region_to_default s1)"
    using assms(1,3) s1
    by (simp add: crop_signal_def signal_length_default audio_data_default)
  from run same l1 m show ?thesis by simp
qed

lemma zero_pad_length:
  assumes "priv_audio_data s = Some a" "list_all is_finite (samples a)"
    and "active_region_is_default s" "0 \<le> b1" "0 \<le> a1"
  shows "\<exists>s'. zero_pad b1 a1 s = Inr s'
           \<and> signal_length s' = Some (max (int (n_chan a)) (int (n_samp a) + b1 + a1))"
proof -
  let ?w = "slice_samples a 0 (int (n_samp a))"
  obtain p where p: "np_pad ?w b1 a1 = Inr p"
    and np: "n_samp p = nat b1 + n_samp a + nat a1" and cp: "n_chan p = n_chan a"
    using assms(4,5) by (simp add: np_pad_def n_samp_whole_slice n_chan_slice_samples)
  have fin: "list_all is_finite (samples p)"
    using finite_np_pad [OF _ p] assms(2) finite_slice_samples by blast
  have len: "int (n_samp p) = int (n_samp a) + b1 + a1"
    using np assms(4,5) by simp
  have "int (max (n_chan p) (n_samp p)) = max (int (n_chan p)) (int (n_samp p))"
    by (rule of_nat_max)
  then have m: "int (max (n_chan p) (n_samp p))
             = max (int (n_chan a)) (int (n_samp a) + b1 + a1)"
    unfolding len cp .
  have run: "zero_pad b1 a1 s = audio_data_setter (PyArray (to_ndarray p)) s"
    using assms(1,3) p by (simp add: zero_pad_def audio_data_default)
  from setter_then_length [OF fin, of s] m run
  show ?thesis by auto
qed

lemma concat_signal_length:
  assumes "priv_audio_data s = Some a" "list_all is_finite (samples a)"
    and "active_region_is_default s"
    and "audio_data other = Some b" "list_all is_finite (samples b)"
    and "n_chan b = n_chan a" "sample_rate other = sample_rate s"
  shows "\<exists>s'. concat_signal other s = Inr s'
           \<and> signal_length s'
               = Some (max (int (n_chan a)) (int (n_samp a) + int (n_samp b)))"
proof -
  let ?w = "slice_samples a 0 (int (n_samp a))"
  have w: "audio_data s = Some ?w"
    using assms(1,3) by (rule audio_data_default)
  have v: "priv_verify_audio other s = Inr ()"
    using w assms(4,6,7)
    by (simp add: priv_verify_audio_def num_channels_def n_chan_slice_samples)
  obtain j where j: "np_concatenate ?w b = Inr j"
    and nj: "n_samp j = n_samp a + n_samp b" and cj: "n_chan j = n_chan a"
    using assms(6) by (simp add: np_concatenate_def n_samp_whole_slice n_chan_slice_samples)
  have fin: "list_all is_finite (samples j)"
    using finite_np_concatenate [OF _ assms(5) j] assms(2) finite_slice_samples by blast
  have m: "int (max (n_chan j) (n_samp j))
             = max (int (n_chan a)) (int (n_samp a) + int (n_samp b))"
    unfolding cj nj by (simp only: of_nat_max of_nat_add)
  have run: "concat_signal other s = audio_data_setter (PyArray (to_ndarray j)) s"
    using v w assms(4) j by (simp add: concat_signal_def)
  from setter_then_length [OF fin, of s] m run
  show ?thesis by auto
qed

lemma concat_signal_mismatch:
  assumes "audio_data s = Some a" "audio_data other = Some b"
    and "n_chan b \<noteq> n_chan a \<or> sample_rate other \<noteq> sample_rate s"
  shows "concat_signal other s = Inl AudioSignalException"
  using assms by (auto simp: concat_signal_def priv_verify_audio_def num_channels_def)

lemma truncate_seconds_float:
  assumes "f_of_int ops (sample_rate s) = Inr r"
  shows "f_mul ops x r = Finite p \<Longrightarrow>
           truncate_seconds ops (SecondsFloat x) s = truncate_samples (py_int p) s"
    and "f_mul ops x r = NaN \<Longrightarrow> truncate_seconds ops (SecondsFloat x) s = Inl ValueError"
    and "f_mul ops x r = PlusInf \<or> f_mul ops x r = MinusInf \<Longrightarrow>
           truncate_seconds ops (SecondsFloat x) s = Inl OverflowError"
  using assms by (auto simp: truncate_seconds_def)

lemma apply_gain_float:
  assumes "audio_data s = Some b"
  shows "list_all is_finite (map (\<lambda>x. f_mul ops x g) (samples b)) \<Longrightarrow>
           apply_gain ops (PyFloat g) s =
             Inr (s\<lparr>priv_audio_data :=
                      Some (stored_form (b\<lparr>samples := map (\<lambda>x. f_mul ops x g) (samples b)\<rparr>)),
                    priv_active_start := Some 0,
                    priv_active_end := Some (int (max (n_chan b) (n_samp b)))\<rparr>)"
    and "\<not> list_all is_finite (map (\<lambda>x. f_mul ops x g) (samples b)) \<Longrightarrow>
           apply_gain ops (PyFloat g) s = Inl AudioSignalException"
proof -
  let ?g = "b\<lparr>samples := map (\<lambda>x. f_mul ops x g) (samples b)\<rparr>"
  have run: "apply_gain ops (PyFloat g) s = audio_data_setter (PyArray (to_ndarray ?g)) s"
    using assms by (simp add: apply_gain_def)
  show "apply_gain ops (PyFloat g) s =
             Inr (s\<lparr>priv_audio_data := Some (stored_form ?g),
                    priv_active_start := Some 0,
                    priv_active_end := Some (int (max (n_chan b) (n_samp b)))\<rparr>)"
    if "list_all is_finite (map (\<lambda>x. f_mul ops x g) (samples b))"
    using audio_data_setter_stored [of ?g s] that run by (simp add: stored_form_shape)
  show "apply_gain ops (PyFloat g) s = Inl AudioSignalException"
    if "\<not> list_all is_finite (map (\<lambda>x. f_mul ops x g) (samples b))"
    using audio_data_setter_rejects [of ?g s] that run by simp
qed

lemma audio_data_setter_accepts_2d:
  assumes "list_all is_finite (samples b)"
  shows "\<exists>s'. audio_data_setter (PyArray (to_ndarray b)) s = Inr s'"
  using assms by (simp add: audio_data_setter_def to_ndarray_def)

lemmas eval_defs = example_mono_def example_stereo_def init_fields_def
  active_region_is_default_def priv_signal_length_def signal_length_def audio_data_def
  slice_samples_def slice_bound_def to_ndarray_def audio_data_setter_def
  set_active_region_to_default_def transpose_elems_def Let_def
  priv_verify_audio_def priv_verify_audio_arithmetic_def num_channels_def sample_rate_def
  stft_data_def np_binop_def broadcast_shapes_def src_index_def exact_ops_def

lemma istft_returns:
  assumes "stft_data s = Some z" "size_nd z \<noteq> 0"
    and "inv_kernel s
           (case window_len of None \<Rightarrow> window_length (priv_stft_params s) | Some w \<Rightarrow> Some w)
           (case hop_len of None \<Rightarrow> hop_length (priv_stft_params s) | Some h \<Rightarrow> Some h)
           (case window_ty of None \<Rightarrow> window_type (priv_stft_params s) | Some t \<Rightarrow> Some t)
         = Inr c"
    and "list_all is_finite (samples c)"
    and "r = (case signal_length s of
                None \<Rightarrow> c
              | Some n \<Rightarrow> if n > 0 then slice_samples c 0 n else c)"
  shows "\<exists>s'. istft inv_kernel window_len hop_len window_ty overwrite None s = Inr (s', r)"
proof -
  have fin: "list_all is_finite (samples r)"
    using assms(4,5) finite_slice_samples [of c]
    by (simp split: option.splits)
  from audio_data_setter_accepts_2d [OF fin, of s]
  obtain s1 where s1: "audio_data_setter (PyArray (to_ndarray r)) s = Inr s1" by blast
  show ?thesis
  proof (cases "signal_length s")
    case None
    then have "audio_data s = None" "original_signal_length s = None"
      by (simp_all add: signal_length_def split: option.splits)
    with None assms s1 show ?thesis
      by (simp add: istft_def Let_def)
  next
    case (Some n)
    with assms s1 show ?thesis
      by (auto simp: istft_def Let_def)
  qed
qed

lemma truncate_transposes_example:
  "truncate_samples 1 example_stereo
     = Inr (example_stereo
             \<lparr>priv_audio_data :=
                Some \<lparr>n_chan = 1, n_samp = 2, samples = map Finite [1, 5]\<rparr>,
              priv_active_start := Some 0, priv_active_end := Some 2\<rparr>)"
  by (simp add: eval_defs truncate_samples_def upt_rec [of _ "numeral _"])

lemma concat_windowed_example:
  "concat_signal example_mono
       (example_mono\<lparr>priv_active_start := Some 1, priv_active_end := Some 3\<rparr>)
     = Inr (example_mono
             \<lparr>priv_audio_data :=
                Some \<lparr>n_chan = 1, n_samp = 6, samples = map Finite [2, 3, 1, 2, 3, 4]\<rparr>,
              priv_active_start := Some 0, priv_active_end := Some 6\<rparr>)"
  by (simp add: eval_defs concat_signal_def np_concatenate_def upt_rec [of _ "numeral _"])

lemma concat_rate_mismatch_example:
  "concat_signal (example_mono\<lparr>priv_sample_rate := 22050\<rparr>) example_mono
     = Inl AudioSignalException"
  by (simp add: eval_defs concat_signal_def)

lemma example_mono_default: "active_region_is_default example_mono"
  by (simp add: example_mono_def init_fields_def active_region_is_default_def
      priv_signal_length_def)

lemma example_stereo_facts:
  "priv_audio_data example_stereo
     = Some \<lparr>n_chan = 2, n_samp = 4, samples = map Finite [1, 2, 3, 4, 5, 6, 7, 8]\<rparr>"
  "active_region_is_default example_stereo"
  "sample_rate example_stereo = 44100"
  by (simp_all add: example_stereo_def init_fields_def active_region_is_default_def
      priv_signal_length_def sample_rate_def)

section \<open>Orientation of assigned sample data\<close>

text \<open>
  Claim C7. Assigning to \<^verbatim>\<open>audio_data\<close> a 2-D array of finite values whose first
  extent \<open>r\<close> exceeds its second extent \<open>c\<close> stores its transpose, of shape \<open>(c, r)\<close>,
  whose entry \<open>(j, i)\<close> is entry \<open>(i, j)\<close> of the assigned array; a 2-D array whose
  first extent does not exceed its second is stored as it is; a 1-D array of length
  \<open>n\<close> is stored as the single channel of an array of shape \<open>(1, n)\<close>. In each case the
  active region becomes the whole stored array. (An array with a non-finite value is
  rejected by the setter, whatever its shape.)
\<close>

theorem audio_data_setter_orientation:
  assumes "list_all is_finite xs"
  shows "(c < r \<longrightarrow>
            audio_data_setter (PyArray \<lparr>shape = [r, c], elems = xs\<rparr>) s =
              Inr (s\<lparr>priv_audio_data :=
                        Some \<lparr>n_chan = c, n_samp = r, samples = transpose_elems r c xs\<rparr>,
                     priv_active_start := Some 0, priv_active_end := Some (int r)\<rparr>)
            \<and> (\<forall>i<r. \<forall>j<c.
                  at2 \<lparr>n_chan = c, n_samp = r, samples = transpose_elems r c xs\<rparr> j i
                    = xs ! (i * c + j)))
       \<and> (r \<le> c \<longrightarrow>
            audio_data_setter (PyArray \<lparr>shape = [r, c], elems = xs\<rparr>) s =
              Inr (s\<lparr>priv_audio_data := Some \<lparr>n_chan = r, n_samp = c, samples = xs\<rparr>,
                     priv_active_start := Some 0, priv_active_end := Some (int c)\<rparr>))
       \<and> audio_data_setter (PyArray \<lparr>shape = [n], elems = xs\<rparr>) s =
            Inr (s\<lparr>priv_audio_data := Some \<lparr>n_chan = 1, n_samp = n, samples = xs\<rparr>,
                   priv_active_start := Some 0, priv_active_end := Some (int n)\<rparr>)"
  using assms
  by (simp add: audio_data_setter_def set_active_region_to_default_def
      priv_signal_length_def at2_def transpose_elems_nth)

theorem audio_data_setter_orientation_witness:
  "audio_data_setter
     (PyArray \<lparr>shape = [5, 2],
               elems = map Finite [1, 2, 3, 4, 5, 6, 7, 8, 9, 10]\<rparr>) (init_fields 44100)
   = Inr ((init_fields 44100)
           \<lparr>priv_audio_data :=
              Some \<lparr>n_chan = 2, n_samp = 5,
                    samples = map Finite [1, 3, 5, 7, 9, 2, 4, 6, 8, 10]\<rparr>,
            priv_active_start := Some 0, priv_active_end := Some 5\<rparr>)
   \<and> audio_data_setter
     (PyArray \<lparr>shape = [2, 5],
               elems = map Finite [1, 2, 3, 4, 5, 6, 7, 8, 9, 10]\<rparr>) (init_fields 44100)
   = Inr ((init_fields 44100)
           \<lparr>priv_audio_data :=
              Some \<lparr>n_chan = 2, n_samp = 5,
                    samples = map Finite [1, 2, 3, 4, 5, 6, 7, 8, 9, 10]\<rparr>,
            priv_active_start := Some 0, priv_active_end := Some 5\<rparr>)
   \<and> audio_data_setter
     (PyArray \<lparr>shape = [3], elems = map Finite [1, 2, 3]\<rparr>) (init_fields 44100)
   = Inr ((init_fields 44100)
           \<lparr>priv_audio_data :=
              Some \<lparr>n_chan = 1, n_samp = 3, samples = map Finite [1, 2, 3]\<rparr>,
            priv_active_start := Some 0, priv_active_end := Some 3\<rparr>)"
proof -
  have fin: "list_all is_finite (map Finite [1, 2, 3, 4, 5, 6, 7, 8, 9, 10])" by simp
  have fin3: "list_all is_finite (map Finite [1, 2, 3])" by simp
  have tr: "transpose_elems 5 2 (map Finite [1, 2, 3, 4, 5, 6, 7, 8, 9, 10])
              = map Finite [1, 3, 5, 7, 9, 2, 4, 6, 8, 10]"
    by (simp add: transpose_elems_def upt_rec [of _ "numeral _"])
  show ?thesis
    using audio_data_setter_orientation [OF fin, where r = 5 and c = 2 and n = 0
        and s = "init_fields 44100"]
      audio_data_setter_orientation [OF fin, where r = 2 and c = 5 and n = 0
        and s = "init_fields 44100"]
      audio_data_setter_orientation [OF fin3, where r = 0 and c = 0 and n = 3
        and s = "init_fields 44100"]
    unfolding tr by simp
qed

section \<open>Bounds of the active region\<close>

text \<open>
  Claim C5, as stated, fails: \<^verbatim>\<open>set_active_region\<close> bounds the start from below and
  the end from above only. On a signal of four samples, as the setter of
  \<^verbatim>\<open>audio_data\<close> leaves it, \<^verbatim>\<open>set_active_region(3, 1)\<close> stores start 3 and end 1,
  which is no window \<open>0 \<le> start \<le> end \<le> 4\<close>.
\<close>

theorem set_active_region_counterexample:
  "audio_data_setter (PyArray \<lparr>shape = [4], elems = map Finite [1, 2, 3, 4]\<rparr>)
       (init_fields 44100)
     = Inr ((init_fields 44100)
             \<lparr>priv_audio_data :=
                Some \<lparr>n_chan = 1, n_samp = 4, samples = map Finite [1, 2, 3, 4]\<rparr>,
              priv_active_start := Some 0, priv_active_end := Some 4\<rparr>)
   \<and> set_active_region 3 1
       ((init_fields 44100)
             \<lparr>priv_audio_data :=
                Some \<lparr>n_chan = 1, n_samp = 4, samples = map Finite [1, 2, 3, 4]\<rparr>,
              priv_active_start := Some 0, priv_active_end := Some 4\<rparr>)
     = Inr ((init_fields 44100)
             \<lparr>priv_audio_data :=
                Some \<lparr>n_chan = 1, n_samp = 4, samples = map Finite [1, 2, 3, 4]\<rparr>,
              priv_active_start := Some 3, priv_active_end := Some 1\<rparr>)
   \<and> \<not> spec_active_window
       ((init_fields 44100)
             \<lparr>priv_audio_data :=
                Some \<lparr>n_chan = 1, n_samp = 4, samples = map Finite [1, 2, 3, 4]\<rparr>,
              priv_active_start := Some 3, priv_active_end := Some 1\<rparr>)"
  by (simp add: audio_data_setter_def set_active_region_to_default_def
      priv_signal_length_def set_active_region_def spec_active_window_def init_fields_def)

text \<open>
  Claim C5, amended. On an object with sample data of total length \<open>len\<close>,
  \<^verbatim>\<open>set_active_region(start, end)\<close> succeeds, keeps the sample data, and stores
  \<open>max start 0\<close> and \<open>min end len\<close>: the start is at least 0 and the end at most
  \<open>len\<close>. The stored bounds are a window \<open>0 \<le> start \<le> end \<le> len\<close> exactly when
  \<open>max start 0 \<le> min end len\<close>; in particular when the arguments already satisfy
  \<open>0 \<le> start \<le> end \<le> len\<close>, and then reads return \<open>end - start\<close> samples per channel.
  The default region, which every assignment of sample data sets, is such a window.
\<close>

theorem set_active_region_clamps:
  assumes "priv_audio_data s = Some a"
  shows "\<exists>s'. set_active_region start end s = Inr s'
           \<and> priv_audio_data s' = Some a
           \<and> priv_active_start s' = Some (max start 0)
           \<and> priv_active_end s' = Some (min end (int (n_samp a)))
           \<and> (spec_active_window s' \<longleftrightarrow> max start 0 \<le> min end (int (n_samp a)))
           \<and> (0 \<le> start \<and> start \<le> end \<and> end \<le> int (n_samp a) \<longrightarrow>
                spec_active_window s' \<and> signal_length s' = Some (end - start))
           \<and> spec_active_window (set_active_region_to_default s)"
  using assms
  by (auto simp: set_active_region_def priv_signal_length_def spec_active_window_def
      signal_length_def audio_data_def Let_def n_samp_slice_samples slice_bound_def
      max_def min_def set_active_region_to_default_def)

theorem set_active_region_clamps_witness:
  "set_active_region 1 3
       ((init_fields 44100)
             \<lparr>priv_audio_data :=
                Some \<lparr>n_chan = 1, n_samp = 4, samples = map Finite [1, 2, 3, 4]\<rparr>,
              priv_active_start := Some 0, priv_active_end := Some 4\<rparr>)
     = Inr ((init_fields 44100)
             \<lparr>priv_audio_data :=
                Some \<lparr>n_chan = 1, n_samp = 4, samples = map Finite [1, 2, 3, 4]\<rparr>,
              priv_active_start := Some 1, priv_active_end := Some 3\<rparr>)
   \<and> spec_active_window
       ((init_fields 44100)
             \<lparr>priv_audio_data :=
                Some \<lparr>n_chan = 1, n_samp = 4, samples = map Finite [1, 2, 3, 4]\<rparr>,
              priv_active_start := Some 1, priv_active_end := Some 3\<rparr>)
   \<and> signal_length
       ((init_fields 44100)
             \<lparr>priv_audio_data :=
                Some \<lparr>n_chan = 1, n_samp = 4, samples = map Finite [1, 2, 3, 4]\<rparr>,
              priv_active_start := Some 1, priv_active_end := Some 3\<rparr>) = Some 2"
proof -
  have h: "priv_audio_data
       ((init_fields 44100)
             \<lparr>priv_audio_data :=
                Some \<lparr>n_chan = 1, n_samp = 4, samples = map Finite [1, 2, 3, 4]\<rparr>,
              priv_active_start := Some 0, priv_active_end := Some 4\<rparr>)
       = Some \<lparr>n_chan = 1, n_samp = 4, samples = map Finite [1, 2, 3, 4]\<rparr>"
    by simp
  have e: "set_active_region 1 3
       ((init_fields 44100)
             \<lparr>priv_audio_data :=
                Some \<lparr>n_chan = 1, n_samp = 4, samples = map Finite [1, 2, 3, 4]\<rparr>,
              priv_active_start := Some 0, priv_active_end := Some 4\<rparr>)
     = Inr ((init_fields 44100)
             \<lparr>priv_audio_data :=
                Some \<lparr>n_chan = 1, n_samp = 4, samples = map Finite [1, 2, 3, 4]\<rparr>,
              priv_active_start := Some 1, priv_active_end := Some 3\<rparr>)"
    by (simp add: set_active_region_def priv_signal_length_def)
  show ?thesis
    using set_active_region_clamps [OF h, of 1 3] unfolding e by auto
qed

section \<open>Adding an integer\<close>

text \<open>
  Claim C9. For every integer \<open>n\<close>, \<^verbatim>\<open>self.add(n)\<close>, \<^verbatim>\<open>self + n\<close> and \<^verbatim>\<open>n + self\<close>
  return the object itself, unchanged; the integer is not examined (and no arithmetic
  is done, whatever the float operations are).
\<close>

theorem add_integer_returns_self:
  "add ops (OtherInt n) s = Inr s \<and> dunder_add ops (OtherInt n) s = Inr s
   \<and> dunder_radd ops (OtherInt n) s = Inr s"
  by (simp add: add_def dunder_add_def dunder_radd_def)

section \<open>The length of a signal\<close>

text \<open>
  Claim C10. Whenever \<^verbatim>\<open>_audio_data\<close> is \<^verbatim>\<open>None\<close>, \<^verbatim>\<open>signal_length\<close> is
  \<^verbatim>\<open>original_signal_length\<close> (which may be \<^verbatim>\<open>None\<close>); this is so for every object
  that \<^verbatim>\<open>make_copy_with_stft_data\<close> returns, whose sample data is \<^verbatim>\<open>None\<close> and whose
  \<^verbatim>\<open>original_signal_length\<close> is that of the copied object. When sample data is
  present, \<^verbatim>\<open>signal_length\<close> is the number of samples per channel that the getter
  of \<^verbatim>\<open>audio_data\<close> returns, which for bounds \<open>0 \<le> st \<le> en \<le> total\<close> is \<open>en - st\<close>.
\<close>

theorem signal_length_cases:
  "(priv_audio_data s = None \<longrightarrow> signal_length s = original_signal_length s)
   \<and> (make_copy_with_stft_data z verbose s = Inr c \<longrightarrow>
          priv_audio_data c = None \<and> signal_length c = original_signal_length s)
   \<and> (priv_audio_data s = Some a \<longrightarrow>
          (\<exists>b. audio_data s = Some b \<and> signal_length s = Some (int (n_samp b))))
   \<and> (priv_audio_data s = Some a \<and> priv_active_start s = Some st
          \<and> priv_active_end s = Some en \<and> 0 \<le> st \<and> st \<le> en \<and> en \<le> int (n_samp a) \<longrightarrow>
          signal_length s = Some (en - st))"
proof (intro conjI impI)
  assume "priv_audio_data s = None"
  then show "signal_length s = original_signal_length s"
    by (simp add: signal_length_def audio_data_def)
next
  assume c: "make_copy_with_stft_data z verbose s = Inr c"
  then show "priv_audio_data c = None"
    by (auto simp: make_copy_with_stft_data_def audio_data_setter_def
        split: sum.splits if_splits)
  from c show "signal_length c = original_signal_length s"
    by (auto simp: make_copy_with_stft_data_def audio_data_setter_def signal_length_def
        audio_data_def split: sum.splits if_splits)
next
  assume "priv_audio_data s = Some a"
  then show "\<exists>b. audio_data s = Some b \<and> signal_length s = Some (int (n_samp b))"
    by (simp add: signal_length_def audio_data_def Let_def)
next
  assume "priv_audio_data s = Some a \<and> priv_active_start s = Some st
          \<and> priv_active_end s = Some en \<and> 0 \<le> st \<and> st \<le> en \<and> en \<le> int (n_samp a)"
  then show "signal_length s = Some (en - st)"
    by (auto simp: signal_length_def audio_data_def Let_def n_samp_slice_samples
        slice_bound_def)
qed

theorem signal_length_cases_witness:
  "make_copy_with_stft_data \<lparr>shape = [2, 1, 1], elems = [1, 2]\<rparr> False
       (example_mono\<lparr>priv_active_start := Some 1, priv_active_end := Some 3\<rparr>)
     = Inr (example_mono\<lparr>priv_active_start := Some 1, priv_active_end := Some 3,
                         priv_stft_data := Some \<lparr>shape = [2, 1, 1], elems = [1, 2]\<rparr>,
                         priv_audio_data := None\<rparr>)
   \<and> signal_length (example_mono\<lparr>priv_active_start := Some 1, priv_active_end := Some 3,
                         priv_stft_data := Some \<lparr>shape = [2, 1, 1], elems = [1, 2]\<rparr>,
                         priv_audio_data := None\<rparr>) = Some 4
   \<and> signal_length (example_mono\<lparr>priv_active_start := Some 1, priv_active_end := Some 3\<rparr>)
       = Some 2"
proof -
  have e: "make_copy_with_stft_data \<lparr>shape = [2, 1, 1], elems = [1, 2]\<rparr> False
       (example_mono\<lparr>priv_active_start := Some 1, priv_active_end := Some 3\<rparr>)
     = Inr (example_mono\<lparr>priv_active_start := Some 1, priv_active_end := Some 3,
                         priv_stft_data := Some \<lparr>shape = [2, 1, 1], elems = [1, 2]\<rparr>,
                         priv_audio_data := None\<rparr>)"
    by (simp add: make_copy_with_stft_data_def stft_data_setter_def audio_data_setter_def
        ndim_def example_mono_def init_fields_def)
  show ?thesis
    using signal_length_cases [where s = "example_mono\<lparr>priv_active_start := Some 1,
          priv_active_end := Some 3\<rparr>"
        and z = "\<lparr>shape = [2, 1, 1], elems = [1, 2]\<rparr>" and verbose = False
        and c = "example_mono\<lparr>priv_active_start := Some 1, priv_active_end := Some 3,
                         priv_stft_data := Some \<lparr>shape = [2, 1, 1], elems = [1, 2]\<rparr>,
                         priv_audio_data := None\<rparr>"
        and a = "\<lparr>n_chan = 1, n_samp = 4, samples = map Finite [1, 2, 3, 4]\<rparr>"
        and st = 1 and en = 3]
    unfolding e by (simp add: example_mono_def init_fields_def)
qed

section \<open>Gain on a windowed signal\<close>

text \<open>
  Claim C8, as stated, fails where the active slice has fewer samples than channels:
  the setter then transposes the slice. Two channels of four samples with the active
  region \<open>[0, 1)\<close> read as one sample per channel; after \<^verbatim>\<open>apply_gain(2.0)\<close> the
  stored array has one channel of the two samples 2 and 10 and total length 2.
\<close>

theorem apply_gain_counterexample:
  "\<not> active_region_is_default
        (example_stereo\<lparr>priv_active_start := Some 0, priv_active_end := Some 1\<rparr>)
   \<and> signal_length (example_stereo\<lparr>priv_active_start := Some 0, priv_active_end := Some 1\<rparr>)
       = Some 1
   \<and> apply_gain exact_ops (PyFloat (Finite 2))
        (example_stereo\<lparr>priv_active_start := Some 0, priv_active_end := Some 1\<rparr>)
       = Inr (example_stereo
               \<lparr>priv_audio_data :=
                  Some \<lparr>n_chan = 1, n_samp = 2, samples = map Finite [2, 10]\<rparr>,
                priv_active_start := Some 0, priv_active_end := Some 2\<rparr>)
   \<and> priv_signal_length (example_stereo
               \<lparr>priv_audio_data :=
                  Some \<lparr>n_chan = 1, n_samp = 2, samples = map Finite [2, 10]\<rparr>,
                priv_active_start := Some 0, priv_active_end := Some 2\<rparr>) = Some 2"
  by (simp add: active_region_is_default_def priv_signal_length_def example_stereo_def
      init_fields_def signal_length_def audio_data_def slice_samples_def slice_bound_def
      apply_gain_def to_ndarray_def audio_data_setter_def transpose_elems_def
      set_active_region_to_default_def Let_def exact_ops_def upt_rec [of _ "numeral _"])

text \<open>
  Claim C8, amended. Let the active slice \<open>b\<close> of the object have \<open>C\<close> channels and
  \<open>w\<close> samples, and let \<open>g\<close> be a float. If every float64 product of a sample of \<open>b\<close>
  and \<open>g\<close> is finite, \<^verbatim>\<open>apply_gain(g)\<close> (and \<^verbatim>\<open>*=\<close>, which calls it) succeeds and
  leaves the active region at default; when \<open>C \<le> w\<close> the gained slice is the whole
  sample data afterwards, so that the samples outside the active region are gone and
  the total length is the former \<^verbatim>\<open>signal_length\<close>; when \<open>w < C\<close> the transpose of the
  gained slice is stored, with \<open>w\<close> channels and total length \<open>C\<close>. If some product is
  not finite, the call raises \<^verbatim>\<open>AudioSignalException\<close>. An integer gain acts as the
  float it converts to. \<^verbatim>\<open>/=\<close> raises what \<^verbatim>\<open>float(value)\<close> raises, raises
  \<^verbatim>\<open>ZeroDivisionError\<close> on a zero, and otherwise is \<^verbatim>\<open>apply_gain\<close> with the float64
  quotient \<^verbatim>\<open>1 / float(value)\<close>.
\<close>

theorem apply_gain_discards_outside:
  assumes "audio_data s = Some b"
  shows "(list_all is_finite (map (\<lambda>x. f_mul ops x g) (samples b)) \<longrightarrow>
            (\<exists>s'. apply_gain ops (PyFloat g) s = Inr s' \<and> imul ops (PyFloat g) s = Inr s'
               \<and> active_region_is_default s'
               \<and> (n_chan b \<le> n_samp b \<longrightarrow>
                    priv_audio_data s'
                      = Some (b\<lparr>samples := map (\<lambda>x. f_mul ops x g) (samples b)\<rparr>)
                    \<and> priv_signal_length s' = signal_length s)
               \<and> (n_samp b < n_chan b \<longrightarrow>
                    priv_audio_data s'
                      = Some \<lparr>n_chan = n_samp b, n_samp = n_chan b,
                              samples = transpose_elems (n_chan b) (n_samp b)
                                          (map (\<lambda>x. f_mul ops x g) (samples b))\<rparr>
                    \<and> priv_signal_length s' = Some (int (n_chan b)))))
       \<and> (\<not> list_all is_finite (map (\<lambda>x. f_mul ops x g) (samples b)) \<longrightarrow>
            apply_gain ops (PyFloat g) s = Inl AudioSignalException
            \<and> imul ops (PyFloat g) s = Inl AudioSignalException)
       \<and> (f_of_int ops k = Inr g \<longrightarrow>
            apply_gain ops (PyInt k) s = apply_gain ops (PyFloat g) s)
       \<and> (py_float ops v = Inr f \<and> f \<noteq> Finite 0 \<longrightarrow>
            idiv ops v s = apply_gain ops (PyFloat (f_div ops (Finite 1) f)) s)
       \<and> (py_float ops v = Inr (Finite 0) \<longrightarrow> idiv ops v s = Inl ZeroDivisionError)
       \<and> (py_float ops v = Inl e \<longrightarrow> idiv ops v s = Inl e)"
proof (intro conjI impI)
  assume fin: "list_all is_finite (map (\<lambda>x. f_mul ops x g) (samples b))"
  let ?s' = "s\<lparr>priv_audio_data :=
                 Some (stored_form (b\<lparr>samples := map (\<lambda>x. f_mul ops x g) (samples b)\<rparr>)),
               priv_active_start := Some 0,
               priv_active_end := Some (int (max (n_chan b) (n_samp b)))\<rparr>"
  have run: "apply_gain ops (PyFloat g) s = Inr ?s'"
    using apply_gain_float(1) [OF assms fin] .
  have len: "signal_length s = Some (int (n_samp b))"
    using assms by (simp add: signal_length_def)
  show "\<exists>s'. apply_gain ops (PyFloat g) s = Inr s' \<and> imul ops (PyFloat g) s = Inr s'
               \<and> active_region_is_default s'
               \<and> (n_chan b \<le> n_samp b \<longrightarrow>
                    priv_audio_data s'
                      = Some (b\<lparr>samples := map (\<lambda>x. f_mul ops x g) (samples b)\<rparr>)
                    \<and> priv_signal_length s' = signal_length s)
               \<and> (n_samp b < n_chan b \<longrightarrow>
                    priv_audio_data s'
                      = Some \<lparr>n_chan = n_samp b, n_samp = n_chan b,
                              samples = transpose_elems (n_chan b) (n_samp b)
                                          (map (\<lambda>x. f_mul ops x g) (samples b))\<rparr>
                    \<and> priv_signal_length s' = Some (int (n_chan b)))"
    using run len
    by (intro exI [of _ ?s'])
      (simp add: imul_def active_region_is_default_def priv_signal_length_def
        stored_form_def)
next
  assume "\<not> list_all is_finite (map (\<lambda>x. f_mul ops x g) (samples b))"
  from apply_gain_float(2) [OF assms this]
  show "apply_gain ops (PyFloat g) s = Inl AudioSignalException"
    and "imul ops (PyFloat g) s = Inl AudioSignalException"
    by (simp_all add: imul_def)
next
  assume "f_of_int ops k = Inr g"
  then show "apply_gain ops (PyInt k) s = apply_gain ops (PyFloat g) s"
    by (simp add: apply_gain_def split: option.splits)
next
  assume "py_float ops v = Inr f \<and> f \<noteq> Finite 0"
  then show "idiv ops v s = apply_gain ops (PyFloat (f_div ops (Finite 1) f)) s"
    by (simp add: idiv_def)
next
  assume "py_float ops v = Inr (Finite 0)"
  then show "idiv ops v s = Inl ZeroDivisionError"
    by (simp add: idiv_def)
next
  assume "py_float ops v = Inl e"
  then show "idiv ops v s = Inl e"
    by (simp add: idiv_def)
qed

theorem apply_gain_discards_outside_witness:
  "\<not> active_region_is_default
        (example_stereo\<lparr>priv_active_start := Some 1, priv_active_end := Some 3\<rparr>)
   \<and> signal_length (example_stereo\<lparr>priv_active_start := Some 1, priv_active_end := Some 3\<rparr>)
       = Some 2
   \<and> (\<exists>s'. apply_gain exact_ops (PyFloat (Finite 2))
               (example_stereo\<lparr>priv_active_start := Some 1, priv_active_end := Some 3\<rparr>)
             = Inr s'
          \<and> priv_audio_data s'
              = Some \<lparr>n_chan = 2, n_samp = 2, samples = map Finite [4, 6, 12, 14]\<rparr>
          \<and> active_region_is_default s' \<and> priv_signal_length s' = Some 2)
   \<and> apply_gain exact_ops (PyFloat NaN)
        (example_stereo\<lparr>priv_active_start := Some 1, priv_active_end := Some 3\<rparr>)
       = Inl AudioSignalException
   \<and> apply_gain exact_ops (PyInt 2)
        (example_stereo\<lparr>priv_active_start := Some 1, priv_active_end := Some 3\<rparr>)
       = apply_gain exact_ops (PyFloat (Finite 2))
           (example_stereo\<lparr>priv_active_start := Some 1, priv_active_end := Some 3\<rparr>)
   \<and> idiv exact_ops (PyFloat (Finite 2))
        (example_stereo\<lparr>priv_active_start := Some 1, priv_active_end := Some 3\<rparr>)
       = apply_gain exact_ops (PyFloat (Finite (1 / 2)))
           (example_stereo\<lparr>priv_active_start := Some 1, priv_active_end := Some 3\<rparr>)
   \<and> idiv exact_ops (PyInt 0)
        (example_stereo\<lparr>priv_active_start := Some 1, priv_active_end := Some 3\<rparr>)
       = Inl ZeroDivisionError
   \<and> idiv exact_ops (NotReal (Inl ValueError))
        (example_stereo\<lparr>priv_active_start := Some 1, priv_active_end := Some 3\<rparr>)
       = Inl ValueError"
proof -
  let ?w = "example_stereo\<lparr>priv_active_start := Some 1, priv_active_end := Some 3\<rparr>"
  let ?b = "\<lparr>n_chan = 2, n_samp = 2, samples = map Finite [2, 3, 6, 7]\<rparr>"
  have nd: "\<not> active_region_is_default ?w"
    by (simp add: active_region_is_default_def)
  have b: "audio_data ?w = Some ?b"
    by (simp add: audio_data_def example_stereo_def init_fields_def slice_samples_def
        slice_bound_def Let_def upt_rec [of _ "numeral _"])
  have len: "signal_length ?w = Some 2"
    by (simp add: signal_length_def b)
  have mul: "map (\<lambda>x. f_mul exact_ops x (Finite 2)) (samples ?b) = map Finite [4, 6, 12, 14]"
    "\<not> list_all is_finite (map (\<lambda>x. f_mul exact_ops x NaN) (samples ?b))"
    by (simp_all add: exact_ops_def)
  have conv: "f_of_int exact_ops 2 = Inr (Finite 2)"
    "py_float exact_ops (PyFloat (Finite 2)) = Inr (Finite 2)"
    "py_float exact_ops (PyInt 0) = Inr (Finite 0)"
    "py_float exact_ops (NotReal (Inl ValueError)) = Inl ValueError"
    "f_div exact_ops (Finite 1) (Finite 2) = Finite (1 / 2)"
    by (simp_all add: exact_ops_def)
  show ?thesis
    using apply_gain_discards_outside [OF b, where ops = exact_ops and g = "Finite 2"
        and k = 2 and v = "PyFloat (Finite 2)" and f = "Finite 2" and e = ValueError]
      apply_gain_discards_outside [OF b, where ops = exact_ops and g = NaN
        and k = 2 and v = "PyInt 0" and f = "Finite 2" and e = ValueError]
      apply_gain_discards_outside [OF b, where ops = exact_ops and g = NaN
        and k = 2 and v = "NotReal (Inl ValueError)" and f = "Finite 2" and e = ValueError]
      nd len mul conv
    by auto
qed

section \<open>Mutators that reshape the sample data\<close>

text \<open>
  Claim C3, as stated, fails. With the active region at default,
  \<^verbatim>\<open>truncate_samples(1)\<close> on two channels of four samples hands an array of shape
  \<open>(2, 1)\<close> to the setter, which transposes it: the object ends with one channel of
  length 2, not with length 1. With both active regions at default, \<^verbatim>\<open>concat\<close> with
  a signal of another sample rate raises. And \<^verbatim>\<open>concat\<close> does not read the active
  region: on a signal whose active region is \<open>[1, 3)\<close> of four samples it succeeds,
  and stores the two active samples followed by the four samples of the other signal.
\<close>

theorem structural_mutators_counterexample:
  "active_region_is_default example_stereo
   \<and> truncate_samples 1 example_stereo
       = Inr (example_stereo
               \<lparr>priv_audio_data :=
                  Some \<lparr>n_chan = 1, n_samp = 2, samples = map Finite [1, 5]\<rparr>,
                priv_active_start := Some 0, priv_active_end := Some 2\<rparr>)
   \<and> signal_length (example_stereo
               \<lparr>priv_audio_data :=
                  Some \<lparr>n_chan = 1, n_samp = 2, samples = map Finite [1, 5]\<rparr>,
                priv_active_start := Some 0, priv_active_end := Some 2\<rparr>) = Some 2
   \<and> active_region_is_default example_mono
   \<and> active_region_is_default (example_mono\<lparr>priv_sample_rate := 22050\<rparr>)
   \<and> concat_signal (example_mono\<lparr>priv_sample_rate := 22050\<rparr>) example_mono
       = Inl AudioSignalException
   \<and> \<not> active_region_is_default
         (example_mono\<lparr>priv_active_start := Some 1, priv_active_end := Some 3\<rparr>)
   \<and> concat_signal example_mono
         (example_mono\<lparr>priv_active_start := Some 1, priv_active_end := Some 3\<rparr>)
       = Inr (example_mono
               \<lparr>priv_audio_data :=
                  Some \<lparr>n_chan = 1, n_samp = 6, samples = map Finite [2, 3, 1, 2, 3, 4]\<rparr>,
                priv_active_start := Some 0, priv_active_end := Some 6\<rparr>)"
proof -
  have "signal_length (example_stereo
               \<lparr>priv_audio_data :=
                  Some \<lparr>n_chan = 1, n_samp = 2, samples = map Finite [1, 5]\<rparr>,
                priv_active_start := Some 0, priv_active_end := Some 2\<rparr>) = Some 2"
    by (simp add: signal_length_def audio_data_def example_stereo_def init_fields_def
        n_samp_slice_samples slice_bound_def)
  moreover have "\<not> active_region_is_default
         (example_mono\<lparr>priv_active_start := Some 1, priv_active_end := Some 3\<rparr>)"
    by (simp add: active_region_is_default_def)
  moreover have "active_region_is_default (example_mono\<lparr>priv_sample_rate := 22050\<rparr>)"
    using example_mono_default
    by (simp add: active_region_is_default_def priv_signal_length_def)
  ultimately show ?thesis
    using truncate_transposes_example concat_windowed_example concat_rate_mismatch_example
      example_stereo_facts(2) example_mono_default
    by simp
qed

text \<open>
  Claim C3, amended. When the active region is not default, \<^verbatim>\<open>truncate_samples\<close>,
  \<^verbatim>\<open>crop_signal\<close> and \<^verbatim>\<open>zero_pad\<close> raise \<^verbatim>\<open>AudioSignalException\<close>, and so does
  \<^verbatim>\<open>truncate_seconds\<close> once it has its number of samples: for an integer argument
  always, for a float argument when the float64 product of the argument and the
  sample rate is finite (on a product that is nan it raises \<^verbatim>\<open>ValueError\<close>, on an
  infinite one \<^verbatim>\<open>OverflowError\<close>, whatever the active region). When the active region
  is default and the object holds finite sample data of \<open>C\<close> channels and total
  length \<open>len\<close>, each mutator succeeds for arguments that are not negative, and the
  new length is \<open>max C w\<close>, where \<open>w\<close> is the expected length: it is \<open>w\<close> when \<open>w\<close>
  is not below the number of channels, and otherwise \<open>C\<close>, since the setter stores the
  transpose. Here \<open>w\<close> is \<open>min n len\<close> for \<^verbatim>\<open>truncate_samples(n)\<close>, the same with
  \<open>n\<close> the integer part of the float64 product (or the exact integer product) for
  \<^verbatim>\<open>truncate_seconds\<close>, \<open>len - before - after\<close> for \<^verbatim>\<open>crop_signal(before, after)\<close>
  with \<open>before + after \<le> len\<close>, \<open>len + before + after\<close> for
  \<^verbatim>\<open>zero_pad(before, after)\<close>, and \<open>len\<close> plus the length of the other object's
  active slice for \<^verbatim>\<open>concat\<close> with an object of the same channel count and sample
  rate; with an object of another channel count or sample rate \<^verbatim>\<open>concat\<close> raises
  \<^verbatim>\<open>AudioSignalException\<close>. What \<^verbatim>\<open>concat\<close> does with a compatible object when the
  active region is not default is left open.
\<close>

theorem structural_mutators_guarded:
  "(\<not> active_region_is_default s \<longrightarrow>
      truncate_samples n s = Inl AudioSignalException
    \<and> crop_signal b1 a1 s = Inl AudioSignalException
    \<and> zero_pad b1 a1 s = Inl AudioSignalException
    \<and> truncate_seconds ops (SecondsInt k) s = Inl AudioSignalException
    \<and> (f_of_int ops (sample_rate s) = Inr r \<and> f_mul ops x r = Finite p \<longrightarrow>
         truncate_seconds ops (SecondsFloat x) s = Inl AudioSignalException))
   \<and> (f_of_int ops (sample_rate s) = Inr r \<and> f_mul ops x r = NaN \<longrightarrow>
        truncate_seconds ops (SecondsFloat x) s = Inl ValueError)
   \<and> (f_of_int ops (sample_rate s) = Inr r
        \<and> (f_mul ops x r = PlusInf \<or> f_mul ops x r = MinusInf) \<longrightarrow>
        truncate_seconds ops (SecondsFloat x) s = Inl OverflowError)
   \<and> (audio_data s = Some a0 \<and> audio_data other = Some b
        \<and> (n_chan b \<noteq> n_chan a0 \<or> sample_rate other \<noteq> sample_rate s) \<longrightarrow>
        concat_signal other s = Inl AudioSignalException)
   \<and> (active_region_is_default s \<and> priv_audio_data s = Some a
        \<and> list_all is_finite (samples a) \<longrightarrow>
      (0 \<le> n \<longrightarrow>
         (\<exists>s'. truncate_samples n s = Inr s'
            \<and> signal_length s' = Some (max (int (n_chan a)) (min n (int (n_samp a))))))
    \<and> (0 \<le> k * sample_rate s \<longrightarrow>
         (\<exists>s'. truncate_seconds ops (SecondsInt k) s = Inr s'
            \<and> signal_length s'
                = Some (max (int (n_chan a)) (min (k * sample_rate s) (int (n_samp a))))))
    \<and> (f_of_int ops (sample_rate s) = Inr r \<and> f_mul ops x r = Finite p
         \<and> 0 \<le> py_int p \<longrightarrow>
         (\<exists>s'. truncate_seconds ops (SecondsFloat x) s = Inr s'
            \<and> signal_length s'
                = Some (max (int (n_chan a)) (min (py_int p) (int (n_samp a))))))
    \<and> (0 \<le> b1 \<and> 0 \<le> a1 \<and> b1 + a1 \<le> int (n_samp a) \<longrightarrow>
         (\<exists>s'. crop_signal b1 a1 s = Inr s'
            \<and> signal_length s'
                = Some (max (int (n_chan a)) (int (n_samp a) - b1 - a1))))
    \<and> (0 \<le> b1 \<and> 0 \<le> a1 \<longrightarrow>
         (\<exists>s'. zero_pad b1 a1 s = Inr s'
            \<and> signal_length s'
                = Some (max (int (n_chan a)) (int (n_samp a) + b1 + a1))))
    \<and> (audio_data other = Some b \<and> list_all is_finite (samples b)
         \<and> n_chan b = n_chan a \<and> sample_rate other = sample_rate s \<longrightarrow>
         (\<exists>s'. concat_signal other s = Inr s'
            \<and> signal_length s'
                = Some (max (int (n_chan a)) (int (n_samp a) + int (n_samp b))))))"
proof (intro conjI impI)
  assume nd: "\<not> active_region_is_default s"
  from guards_when_not_default [OF nd]
  show "truncate_samples n s = Inl AudioSignalException"
    and "crop_signal b1 a1 s = Inl AudioSignalException"
    and "zero_pad b1 a1 s = Inl AudioSignalException"
    by simp_all
  from guards_when_not_default(1) [OF nd]
  show "truncate_seconds ops (SecondsInt k) s = Inl AudioSignalException"
    by (simp add: truncate_seconds_def)
next
  assume nd: "\<not> active_region_is_default s"
    and "f_of_int ops (sample_rate s) = Inr r \<and> f_mul ops x r = Finite p"
  then show "truncate_seconds ops (SecondsFloat x) s = Inl AudioSignalException"
    using truncate_seconds_float(1) [of ops s r x p] guards_when_not_default(1) [OF nd]
    by simp
next
  assume "f_of_int ops (sample_rate s) = Inr r \<and> f_mul ops x r = NaN"
  then show "truncate_seconds ops (SecondsFloat x) s = Inl ValueError"
    using truncate_seconds_float(2) [of ops s r x] by simp
next
  assume "f_of_int ops (sample_rate s) = Inr r
        \<and> (f_mul ops x r = PlusInf \<or> f_mul ops x r = MinusInf)"
  then show "truncate_seconds ops (SecondsFloat x) s = Inl OverflowError"
    using truncate_seconds_float(3) [of ops s r x] by simp
next
  assume "audio_data s = Some a0 \<and> audio_data other = Some b
        \<and> (n_chan b \<noteq> n_chan a0 \<or> sample_rate other \<noteq> sample_rate s)"
  then show "concat_signal other s = Inl AudioSignalException"
    using concat_signal_mismatch [of s a0 other b] by blast
next
  assume "active_region_is_default s \<and> priv_audio_data s = Some a
        \<and> list_all is_finite (samples a)" and "0 \<le> n"
  then show "\<exists>s'. truncate_samples n s = Inr s'
            \<and> signal_length s' = Some (max (int (n_chan a)) (min n (int (n_samp a))))"
    using truncate_samples_length [of s a n] by simp
next
  assume "active_region_is_default s \<and> priv_audio_data s = Some a
        \<and> list_all is_finite (samples a)" and "0 \<le> k * sample_rate s"
  then show "\<exists>s'. truncate_seconds ops (SecondsInt k) s = Inr s'
            \<and> signal_length s'
                = Some (max (int (n_chan a)) (min (k * sample_rate s) (int (n_samp a))))"
    using truncate_samples_length [of s a "k * sample_rate s"]
    by (simp add: truncate_seconds_def)
next
  assume "active_region_is_default s \<and> priv_audio_data s = Some a
        \<and> list_all is_finite (samples a)"
    and "f_of_int ops (sample_rate s) = Inr r \<and> f_mul ops x r = Finite p
         \<and> 0 \<le> py_int p"
  then show "\<exists>s'. truncate_seconds ops (SecondsFloat x) s = Inr s'
            \<and> signal_length s'
                = Some (max (int (n_chan a)) (min (py_int p) (int (n_samp a))))"
    using truncate_samples_length [of s a "py_int p"]
      truncate_seconds_float(1) [of ops s r x p]
    by simp
next
  assume "active_region_is_default s \<and> priv_audio_data s = Some a
        \<and> list_all is_finite (samples a)"
    and "0 \<le> b1 \<and> 0 \<le> a1 \<and> b1 + a1 \<le> int (n_samp a)"
  then show "\<exists>s'. crop_signal b1 a1 s = Inr s'
            \<and> signal_length s'
                = Some (max (int (n_chan a)) (int (n_samp a) - b1 - a1))"
    using crop_signal_length [of s a b1 a1] by simp
next
  assume "active_region_is_default s \<and> priv_audio_data s = Some a
        \<and> list_all is_finite (samples a)" and "0 \<le> b1 \<and> 0 \<le> a1"
  then show "\<exists>s'. zero_pad b1 a1 s = Inr s'
            \<and> signal_length s'
                = Some (max (int (n_chan a)) (int (n_samp a) + b1 + a1))"
    using zero_pad_length [of s a b1 a1] by simp
next
  assume "active_region_is_default s \<and> priv_audio_data s = Some a
        \<and> list_all is_finite (samples a)"
    and "audio_data other = Some b \<and> list_all is_finite (samples b)
         \<and> n_chan b = n_chan a \<and> sample_rate other = sample_rate s"
  then show "\<exists>s'. concat_signal other s = Inr s'
            \<and> signal_length s'
                = Some (max (int (n_chan a)) (int (n_samp a) + int (n_samp b)))"
    using concat_signal_length [of s a other b] by simp
qed

theorem structural_mutators_guarded_witness:
  "truncate_samples 3 (example_stereo\<lparr>priv_active_end := Some 3\<rparr>) = Inl AudioSignalException
   \<and> truncate_seconds exact_ops (SecondsFloat (Finite (1 / 2)))
       (example_stereo\<lparr>priv_active_end := Some 3\<rparr>) = Inl AudioSignalException
   \<and> truncate_seconds exact_ops (SecondsInt 1)
       (example_stereo\<lparr>priv_active_end := Some 3\<rparr>) = Inl AudioSignalException
   \<and> truncate_seconds exact_ops (SecondsFloat NaN)
       (example_stereo\<lparr>priv_active_end := Some 3\<rparr>) = Inl ValueError
   \<and> crop_signal 1 1 (example_stereo\<lparr>priv_active_end := Some 3\<rparr>) = Inl AudioSignalException
   \<and> zero_pad 1 1 (example_stereo\<lparr>priv_active_end := Some 3\<rparr>) = Inl AudioSignalException
   \<and> (\<exists>s'. truncate_samples 3 example_stereo = Inr s' \<and> signal_length s' = Some 3)
   \<and> (\<exists>s'. truncate_samples 1 example_stereo = Inr s' \<and> signal_length s' = Some 2)
   \<and> (\<exists>s'. truncate_seconds exact_ops (SecondsFloat (Finite (1 / 2))) example_stereo = Inr s'
          \<and> signal_length s' = Some 4)
   \<and> (\<exists>s'. truncate_seconds exact_ops (SecondsInt 1) example_stereo = Inr s'
          \<and> signal_length s' = Some 4)
   \<and> (\<exists>s'. crop_signal 1 1 example_stereo = Inr s' \<and> signal_length s' = Some 2)
   \<and> (\<exists>s'. zero_pad 1 1 example_stereo = Inr s' \<and> signal_length s' = Some 6)
   \<and> (\<exists>s'. concat_signal (example_stereo\<lparr>priv_active_end := Some 3\<rparr>) example_stereo = Inr s'
          \<and> signal_length s' = Some 7)
   \<and> concat_signal (example_stereo\<lparr>priv_active_end := Some 3, priv_sample_rate := 22050\<rparr>)
         example_stereo = Inl AudioSignalException"
proof -
  let ?a = "\<lparr>n_chan = 2, n_samp = 4, samples = map Finite [1, 2, 3, 4, 5, 6, 7, 8]\<rparr>"
  let ?w = "example_stereo\<lparr>priv_active_end := Some 3\<rparr>"
  let ?b = "\<lparr>n_chan = 2, n_samp = 3, samples = map Finite [1, 2, 3, 5, 6, 7]\<rparr>"
  have a: "priv_audio_data example_stereo = Some ?a" "priv_audio_data ?w = Some ?a"
    by (simp_all add: example_stereo_facts)
  have fin: "list_all is_finite (samples ?a)"
    by simp
  have nd: "\<not> active_region_is_default ?w"
    by (simp add: active_region_is_default_def priv_signal_length_def example_stereo_facts)
  have b: "audio_data ?w = Some ?b"
    by (simp add: audio_data_def example_stereo_def init_fields_def slice_samples_def
        slice_bound_def Let_def upt_rec [of _ "numeral _"])
  let ?o = "example_stereo\<lparr>priv_active_end := Some 3, priv_sample_rate := 22050\<rparr>"
  have rate: "sample_rate ?w = 44100" "sample_rate ?o = 22050"
    using example_stereo_facts(3) by (simp_all add: sample_rate_def)
  have whole: "audio_data example_stereo = Some (slice_samples ?a 0 (int (n_samp ?a)))"
    using example_stereo_facts(1,2) by (rule audio_data_default)
  have bo: "audio_data ?o = Some ?b"
    by (simp add: audio_data_def example_stereo_def init_fields_def slice_samples_def
        slice_bound_def Let_def upt_rec [of _ "numeral _"])
  have conv: "f_of_int exact_ops 44100 = Inr (Finite 44100)"
    "f_mul exact_ops (Finite (1 / 2)) (Finite 44100) = Finite 22050"
    "f_mul exact_ops NaN (Finite 44100) = NaN"
    "py_int 22050 = 22050"
    by (simp_all add: exact_ops_def py_int_def)
  show ?thesis
    using structural_mutators_guarded [where s = ?w and a = ?a and n = 3 and k = 1
        and ops = exact_ops and x = "Finite (1 / 2)" and r = "Finite 44100" and p = 22050
        and ?b1.0 = 1 and ?a1.0 = 1 and other = ?w and b = ?b]
      structural_mutators_guarded [where s = ?w and a = ?a and n = 3 and k = 1
        and ops = exact_ops and x = NaN and r = "Finite 44100" and p = 22050
        and ?b1.0 = 1 and ?a1.0 = 1 and other = ?w and b = ?b]
      structural_mutators_guarded [where s = example_stereo and a = ?a and n = 3 and k = 1
        and ops = exact_ops and x = "Finite (1 / 2)" and r = "Finite 44100" and p = 22050
        and ?b1.0 = 1 and ?a1.0 = 1 and other = ?w and b = ?b]
      structural_mutators_guarded [where s = example_stereo and a = ?a and n = 1 and k = 1
        and ops = exact_ops and x = "Finite (1 / 2)" and r = "Finite 44100" and p = 22050
        and ?b1.0 = 1 and ?a1.0 = 1 and other = ?w and b = ?b]
      structural_mutators_guarded [where s = example_stereo and a = ?a and n = 1 and k = 1
        and ops = exact_ops and x = "Finite (1 / 2)" and r = "Finite 44100" and p = 22050
        and ?b1.0 = 1 and ?a1.0 = 1 and other = ?o and b = ?b
        and ?a0.0 = "slice_samples ?a 0 (int (n_samp ?a))"]
      a fin nd b rate conv whole bo
    by (simp add: example_stereo_facts n_chan_slice_samples)
qed

section \<open>Addition and subtraction of signals\<close>

text \<open>
  Claim C4 says that \<^verbatim>\<open>add\<close> and \<^verbatim>\<open>subtract\<close> fail unless both active regions are
  default, as their documentation does. They do not read the active region: on a
  signal of four samples whose active region is \<open>[1, 3)\<close>, adding the signal to itself
  returns a signal with the two samples 4 and 6, and subtracting it from itself one
  with the two samples 0 and 0. This holds for every float arithmetic that computes
  the seven sums, products and the conversion named in the hypotheses, as float64
  does, all of them being exact.
\<close>

theorem add_ignores_active_region:
  assumes "f_add ops (Finite 2) (Finite 2) = Finite 4"
    and "f_add ops (Finite 3) (Finite 3) = Finite 6"
    and "f_of_int ops (- 1) = Inr (Finite (- 1))"
    and "f_mul ops (Finite 2) (Finite (- 1)) = Finite (- 2)"
    and "f_mul ops (Finite 3) (Finite (- 1)) = Finite (- 3)"
    and "f_add ops (Finite 2) (Finite (- 2)) = Finite 0"
    and "f_add ops (Finite 3) (Finite (- 3)) = Finite 0"
  shows "\<not> active_region_is_default
        (example_mono\<lparr>priv_active_start := Some 1, priv_active_end := Some 3\<rparr>)
   \<and> add ops
        (OtherSignal (example_mono\<lparr>priv_active_start := Some 1, priv_active_end := Some 3\<rparr>))
        (example_mono\<lparr>priv_active_start := Some 1, priv_active_end := Some 3\<rparr>)
       = Inr (example_mono
               \<lparr>priv_audio_data :=
                  Some \<lparr>n_chan = 1, n_samp = 2, samples = map Finite [4, 6]\<rparr>,
                priv_active_start := Some 0, priv_active_end := Some 2\<rparr>)
   \<and> subtract ops (example_mono\<lparr>priv_active_start := Some 1, priv_active_end := Some 3\<rparr>)
        (example_mono\<lparr>priv_active_start := Some 1, priv_active_end := Some 3\<rparr>)
       = Inr (example_mono
               \<lparr>priv_audio_data :=
                  Some \<lparr>n_chan = 1, n_samp = 2, samples = map Finite [0, 0]\<rparr>,
                priv_active_start := Some 0, priv_active_end := Some 2\<rparr>)"
  using assms
  by (simp add: example_mono_def init_fields_def
      active_region_is_default_def priv_signal_length_def signal_length_def audio_data_def
      slice_samples_def slice_bound_def to_ndarray_def audio_data_setter_def
      set_active_region_to_default_def transpose_elems_def Let_def
      priv_verify_audio_def priv_verify_audio_arithmetic_def num_channels_def sample_rate_def
      stft_data_def np_binop_def broadcast_shapes_def src_index_def
      add_def subtract_def imul_def apply_gain_def upt_rec [of _ "numeral _"])

theorem add_ignores_active_region_witness:
  "\<not> active_region_is_default
        (example_mono\<lparr>priv_active_start := Some 1, priv_active_end := Some 3\<rparr>)
   \<and> add exact_ops
        (OtherSignal (example_mono\<lparr>priv_active_start := Some 1, priv_active_end := Some 3\<rparr>))
        (example_mono\<lparr>priv_active_start := Some 1, priv_active_end := Some 3\<rparr>)
       = Inr (example_mono
               \<lparr>priv_audio_data :=
                  Some \<lparr>n_chan = 1, n_samp = 2, samples = map Finite [4, 6]\<rparr>,
                priv_active_start := Some 0, priv_active_end := Some 2\<rparr>)
   \<and> subtract exact_ops
        (example_mono\<lparr>priv_active_start := Some 1, priv_active_end := Some 3\<rparr>)
        (example_mono\<lparr>priv_active_start := Some 1, priv_active_end := Some 3\<rparr>)
       = Inr (example_mono
               \<lparr>priv_audio_data :=
                  Some \<lparr>n_chan = 1, n_samp = 2, samples = map Finite [0, 0]\<rparr>,
                priv_active_start := Some 0, priv_active_end := Some 2\<rparr>)"
proof -
  have "f_add exact_ops (Finite 2) (Finite 2) = Finite 4"
    and "f_add exact_ops (Finite 3) (Finite 3) = Finite 6"
    and "f_of_int exact_ops (- 1) = Inr (Finite (- 1))"
    and "f_mul exact_ops (Finite 2) (Finite (- 1)) = Finite (- 2)"
    and "f_mul exact_ops (Finite 3) (Finite (- 1)) = Finite (- 3)"
    and "f_add exact_ops (Finite 2) (Finite (- 2)) = Finite 0"
    and "f_add exact_ops (Finite 3) (Finite (- 3)) = Finite 0"
    by (simp_all add: exact_ops_def)
  then show ?thesis
    by (rule add_ignores_active_region)
qed

section \<open>Truncation after the inverse transform\<close>

text \<open>
  Claim C6, as stated, fails when the length to truncate to is 0: \<^verbatim>\<open>istft\<close> truncates
  only to a positive length. On an object whose sample data exists and has length 0
  (as the setter stores a 1-D array without elements), an inverse transform of three
  samples is returned whole, not cut to the length 0 of the sample data.
\<close>

theorem istft_truncation_counterexample:
  "audio_data_setter (PyArray \<lparr>shape = [0], elems = []\<rparr>) (init_fields 44100)
     = Inr ((init_fields 44100)
             \<lparr>priv_audio_data := Some \<lparr>n_chan = 1, n_samp = 0, samples = []\<rparr>,
              priv_active_start := Some 0, priv_active_end := Some 0\<rparr>)
   \<and> priv_audio_data example_empty_audio = Some \<lparr>n_chan = 1, n_samp = 0, samples = []\<rparr>
   \<and> signal_length example_empty_audio = Some 0
   \<and> istft (example_kernel \<lparr>n_chan = 1, n_samp = 3, samples = map Finite [1, 2, 3]\<rparr>)
        None None None False None example_empty_audio
       = Inr (example_empty_audio,
              \<lparr>n_chan = 1, n_samp = 3, samples = map Finite [1, 2, 3]\<rparr>)
   \<and> slice_samples \<lparr>n_chan = 1, n_samp = 3, samples = map Finite [1, 2, 3]\<rparr> 0 0
       = \<lparr>n_chan = 1, n_samp = 0, samples = []\<rparr>"
  by (simp add: example_empty_audio_def init_fields_def audio_data_setter_def
      set_active_region_to_default_def priv_signal_length_def signal_length_def
      audio_data_def slice_samples_def slice_bound_def Let_def istft_def stft_data_def
      size_nd_def example_kernel_def)

text \<open>
  Claim C6, amended. Let the object have non-empty spectral data, and let the inverse
  kernel, run with the window length, hop length and window type of the call (each
  taken from the object's transform parameters where the call gives none), return a
  signal \<open>c\<close> of finite samples. Then \<^verbatim>\<open>istft\<close> with \<^verbatim>\<open>truncate_to_length=None\<close>
  returns: \<open>c\<close> cut to \<^verbatim>\<open>signal_length\<close> (the length of the active slice) if sample
  data exists and that length is positive; else \<open>c\<close> cut to
  \<^verbatim>\<open>original_signal_length\<close> if there is no sample data and that length is recorded
  and positive; and \<open>c\<close> itself in every other case, among them a length of 0.
\<close>

theorem istft_truncation_policy:
  assumes "stft_data s = Some z" "size_nd z \<noteq> 0"
    and "inv_kernel s
           (case window_len of None \<Rightarrow> window_length (priv_stft_params s) | Some w \<Rightarrow> Some w)
           (case hop_len of None \<Rightarrow> hop_length (priv_stft_params s) | Some h \<Rightarrow> Some h)
           (case window_ty of None \<Rightarrow> window_type (priv_stft_params s) | Some t \<Rightarrow> Some t)
         = Inr c"
    and "list_all is_finite (samples c)"
  shows "(audio_data s = Some a \<and> 0 < n_samp a \<longrightarrow>
            (\<exists>s'. istft inv_kernel window_len hop_len window_ty overwrite None s
                     = Inr (s', slice_samples c 0 (int (n_samp a)))))
       \<and> (audio_data s = Some a \<and> n_samp a = 0 \<longrightarrow>
            (\<exists>s'. istft inv_kernel window_len hop_len window_ty overwrite None s
                     = Inr (s', c)))
       \<and> (audio_data s = None \<and> original_signal_length s = Some m \<and> 0 < m \<longrightarrow>
            (\<exists>s'. istft inv_kernel window_len hop_len window_ty overwrite None s
                     = Inr (s', slice_samples c 0 m)))
       \<and> (audio_data s = None \<and> original_signal_length s = Some m \<and> m \<le> 0 \<longrightarrow>
            (\<exists>s'. istft inv_kernel window_len hop_len window_ty overwrite None s
                     = Inr (s', c)))
       \<and> (audio_data s = None \<and> original_signal_length s = None \<longrightarrow>
            (\<exists>s'. istft inv_kernel window_len hop_len window_ty overwrite None s
                     = Inr (s', c)))"
proof -
  note ret = istft_returns [where inv_kernel = inv_kernel and s = s and c = c
      and window_len = window_len and hop_len = hop_len and window_ty = window_ty
      and overwrite = overwrite, OF assms]
  show ?thesis
  proof (intro conjI impI)
    assume "audio_data s = Some a \<and> 0 < n_samp a"
    then show "\<exists>s'. istft inv_kernel window_len hop_len window_ty overwrite None s
                     = Inr (s', slice_samples c 0 (int (n_samp a)))"
      by (intro ret) (simp add: signal_length_def)
  next
    assume "audio_data s = Some a \<and> n_samp a = 0"
    then show "\<exists>s'. istft inv_kernel window_len hop_len window_ty overwrite None s
                     = Inr (s', c)"
      by (intro ret) (simp add: signal_length_def)
  next
    assume "audio_data s = None \<and> original_signal_length s = Some m \<and> 0 < m"
    then show "\<exists>s'. istft inv_kernel window_len hop_len window_ty overwrite None s
                     = Inr (s', slice_samples c 0 m)"
      by (intro ret) (simp add: signal_length_def)
  next
    assume "audio_data s = None \<and> original_signal_length s = Some m \<and> m \<le> 0"
    then show "\<exists>s'. istft inv_kernel window_len hop_len window_ty overwrite None s
                     = Inr (s', c)"
      by (intro ret) (simp add: signal_length_def)
  next
    assume "audio_data s = None \<and> original_signal_length s = None"
    then show "\<exists>s'. istft inv_kernel window_len hop_len window_ty overwrite None s
                     = Inr (s', c)"
      by (intro ret) (simp add: signal_length_def)
  qed
qed

theorem istft_truncation_policy_witness:
  "(\<exists>s'. istft (example_kernel \<lparr>n_chan = 1, n_samp = 6,
                                  samples = map Finite [1, 2, 3, 4, 5, 6]\<rparr>)
            None None None True None
            (example_mono\<lparr>priv_stft_data := Some \<lparr>shape = [2, 1, 1], elems = [1, 2]\<rparr>,
                          priv_active_end := Some 3\<rparr>)
          = Inr (s', \<lparr>n_chan = 1, n_samp = 3, samples = map Finite [1, 2, 3]\<rparr>))
   \<and> (\<exists>s'. istft (example_kernel \<lparr>n_chan = 1, n_samp = 6,
                                  samples = map Finite [1, 2, 3, 4, 5, 6]\<rparr>)
            (Some 2) (Some 1) (Some ''hann'') False None
            (example_mono\<lparr>priv_stft_data := Some \<lparr>shape = [2, 1, 1], elems = [1, 2]\<rparr>,
                          priv_audio_data := None\<rparr>)
          = Inr (s', \<lparr>n_chan = 1, n_samp = 4, samples = map Finite [1, 2, 3, 4]\<rparr>))"
proof -
  let ?z = "\<lparr>shape = [2, 1, 1], elems = [1, 2 :: complex]\<rparr>"
  let ?c = "\<lparr>n_chan = 1, n_samp = 6, samples = map Finite [1, 2, 3, 4, 5, 6]\<rparr>"
  let ?k = "example_kernel ?c"
  let ?s1 = "example_mono\<lparr>priv_stft_data := Some ?z, priv_active_end := Some 3\<rparr>"
  let ?s2 = "example_mono\<lparr>priv_stft_data := Some ?z, priv_audio_data := None\<rparr>"
  let ?a = "\<lparr>n_chan = 1, n_samp = 3, samples = map Finite [1, 2, 3]\<rparr>"
  have z: "stft_data ?s1 = Some ?z" "stft_data ?s2 = Some ?z" "size_nd ?z \<noteq> 0"
    by (simp_all add: stft_data_def size_nd_def)
  have k: "?k ?s1
             (case None of None \<Rightarrow> window_length (priv_stft_params ?s1) | Some w \<Rightarrow> Some w)
             (case None of None \<Rightarrow> hop_length (priv_stft_params ?s1) | Some h \<Rightarrow> Some h)
             (case None of None \<Rightarrow> window_type (priv_stft_params ?s1) | Some t \<Rightarrow> Some t)
           = Inr ?c"
      "?k ?s2
             (case Some 2 of None \<Rightarrow> window_length (priv_stft_params ?s2) | Some w \<Rightarrow> Some w)
             (case Some 1 of None \<Rightarrow> hop_length (priv_stft_params ?s2) | Some h \<Rightarrow> Some h)
             (case Some ''hann'' of None \<Rightarrow> window_type (priv_stft_params ?s2)
                | Some t \<Rightarrow> Some t)
           = Inr ?c"
    by (simp_all add: example_kernel_def)
  have fin: "list_all is_finite (samples ?c)" by simp
  have a1: "audio_data ?s1 = Some ?a"
    by (simp add: audio_data_def example_mono_def init_fields_def slice_samples_def
        slice_bound_def Let_def)
  have a2: "audio_data ?s2 = None" "original_signal_length ?s2 = Some 4"
    by (simp_all add: audio_data_def example_mono_def init_fields_def)
  have c3: "slice_samples ?c 0 3 = ?a"
    and c4: "slice_samples ?c 0 4 = \<lparr>n_chan = 1, n_samp = 4, samples = map Finite [1, 2, 3, 4]\<rparr>"
    by (simp_all add: slice_samples_def slice_bound_def Let_def)
  show ?thesis
    using istft_truncation_policy [where inv_kernel = ?k and s = ?s1 and z = ?z and c = ?c
        and a = ?a and m = 4 and overwrite = True and window_len = None and hop_len = None
        and window_ty = None, OF z(1) z(3) k(1) fin]
      istft_truncation_policy [where inv_kernel = ?k and s = ?s2 and z = ?z and c = ?c
        and a = ?a and m = 4 and overwrite = False and window_len = "Some 2"
        and hop_len = "Some 1" and window_ty = "Some ''hann''", OF z(2) z(3) k(2) fin]
      a1 a2 c3 c4
    by simp
qed

section \<open>Validation of the transform parameters\<close>

text \<open>
  Claim C1 says that assigning a triple that fails the COLA condition fails at once.
  The setter calls \<^verbatim>\<open>check_COLA\<close>, as its documentation announces, but does not read
  the truth value it returns: whenever \<^verbatim>\<open>check_COLA\<close> returns at all, be it \<^verbatim>\<open>False\<close>,
  the assignment succeeds and the triple is stored.
\<close>

theorem stft_params_setter_ignores_check:
  assumes "check_COLA (if wt = ''sqrt_hann'' then WINDOW_HANN else wt) wl hl = Inr ok"
  shows "stft_params_setter check_COLA WINDOW_DEFAULT WINDOW_HANN default_win_len
           (Params \<lparr>window_length = Some wl, hop_length = Some hl, window_type = Some wt\<rparr>) s
         = Inr (s\<lparr>priv_stft_params :=
                    \<lparr>window_length = Some wl, hop_length = Some hl,
                     window_type = Some wt\<rparr>\<rparr>)"
  using assms
  by (cases "wt = ''sqrt_hann''") (simp_all add: stft_params_setter_def Let_def)

theorem stft_params_setter_ignores_check_witness:
  "stft_params_setter (\<lambda>w n h. Inr False) ''hann'' ''hann'' 2048
     (Params \<lparr>window_length = Some 512, hop_length = Some 100, window_type = Some ''hann''\<rparr>)
     (init_fields 44100)
   = Inr ((init_fields 44100)
           \<lparr>priv_stft_params :=
              \<lparr>window_length = Some 512, hop_length = Some 100,
               window_type = Some ''hann''\<rparr>\<rparr>)"
  using stft_params_setter_ignores_check [of "\<lambda>w n h. Inr False" "''hann''" "''hann''"
      512 100 False "''hann''" 2048 "init_fields 44100"]
  by simp

section \<open>Shapes of masks\<close>

text \<open>
  Claim C2 says that, for spectral data of shape \<open>(F, T, C)\<close>, masks of shape
  \<open>(F, T, C)\<close> and \<open>(F, T)\<close> both apply and a mask of shape \<open>(F, T, C + 1)\<close> is
  rejected. \<^verbatim>\<open>apply_mask\<close> compares the mask's shape without its last extent with the
  whole shape of the spectral data, so a mask of shape \<open>(F, T)\<close> is rejected, as is one
  of shape \<open>(F, T, 1)\<close> unless \<open>C = 1\<close>. The two other parts hold: a mask of shape
  \<open>(F, T, C + 1)\<close> is rejected, and a mask of shape \<open>(F, T, C)\<close> applies, with a masked
  spectrum of shape \<open>(F, T, C)\<close>, in a new object without sample data or in place.
\<close>

theorem apply_mask_shape_law:
  assumes "stft_data s = Some z" "shape z = [F, T, C]"
  shows "(mask_shape mo = [F, T] \<longrightarrow> apply_mask (MaskBase mo) ow s = Inl AudioSignalException)
       \<and> (mask_shape mo = [F, T, 1] \<and> C \<noteq> 1 \<longrightarrow>
            apply_mask (MaskBase mo) ow s = Inl AudioSignalException)
       \<and> (mask_shape mo = [F, T, C + 1] \<longrightarrow>
            apply_mask (MaskBase mo) ow s = Inl AudioSignalException)
       \<and> (mask_shape mo = [F, T, C] \<and> shape (mask mo) = [F, T, C] \<longrightarrow>
            (\<exists>r. apply_mask (MaskBase mo) False s = Inr (s, Some r)
               \<and> (\<exists>m. stft_data r = Some m \<and> shape m = [F, T, C])
               \<and> priv_audio_data r = None)
          \<and> (\<exists>s'. apply_mask (MaskBase mo) True s = Inr (s', None)
               \<and> (\<exists>m. stft_data s' = Some m \<and> shape m = [F, T, C])))"
proof (intro conjI impI)
  assume "mask_shape mo = [F, T]"
  then show "apply_mask (MaskBase mo) ow s = Inl AudioSignalException"
    using assms by (simp add: apply_mask_def)
next
  assume "mask_shape mo = [F, T, 1] \<and> C \<noteq> 1"
  then show "apply_mask (MaskBase mo) ow s = Inl AudioSignalException"
    using assms by (auto simp: apply_mask_def)
next
  assume "mask_shape mo = [F, T, C + 1]"
  then show "apply_mask (MaskBase mo) ow s = Inl AudioSignalException"
    using assms by (simp add: apply_mask_def)
next
  assume h: "mask_shape mo = [F, T, C] \<and> shape (mask mo) = [F, T, C]"
  then have "shape z = shape (mask mo)" using assms(2) by simp
  from np_binop_same_shape [OF this, of "\<lambda>c x. c * complex_of_real x"]
  obtain m where m: "np_binop (\<lambda>c x. c * complex_of_real x) z (mask mo) = Inr m"
    and sm: "shape m = [F, T, C]"
    using assms(2) by auto
  have set: "stft_data_setter (PyArray m) s = Inr (s\<lparr>priv_stft_data := Some m\<rparr>)"
    using sm by (simp add: stft_data_setter_def ndim_def)
  show "\<exists>r. apply_mask (MaskBase mo) False s = Inr (s, Some r)
               \<and> (\<exists>m. stft_data r = Some m \<and> shape m = [F, T, C])
               \<and> priv_audio_data r = None"
    using assms h m sm set
    by (simp add: apply_mask_def make_copy_with_stft_data_def audio_data_setter_def
        stft_data_def)
  show "\<exists>s'. apply_mask (MaskBase mo) True s = Inr (s', None)
               \<and> (\<exists>m. stft_data s' = Some m \<and> shape m = [F, T, C])"
    using assms h m sm set
    by (simp add: apply_mask_def stft_data_def)
qed

theorem apply_mask_shape_law_witness:
  "apply_mask (MaskBase \<lparr>mask_shape = [2, 1], mask = \<lparr>shape = [2, 1], elems = [1, 0]\<rparr>\<rparr>)
      False ((init_fields 44100)\<lparr>priv_stft_data := Some \<lparr>shape = [2, 1, 2],
                                                         elems = [1, 2, 3, 4]\<rparr>\<rparr>)
     = Inl AudioSignalException
   \<and> apply_mask (MaskBase \<lparr>mask_shape = [2, 1, 1],
                             mask = \<lparr>shape = [2, 1, 1], elems = [1, 0]\<rparr>\<rparr>)
      False ((init_fields 44100)\<lparr>priv_stft_data := Some \<lparr>shape = [2, 1, 2],
                                                         elems = [1, 2, 3, 4]\<rparr>\<rparr>)
     = Inl AudioSignalException"
proof -
  let ?z = "\<lparr>shape = [2, 1, 2], elems = [1, 2, 3, 4 :: complex]\<rparr>"
  let ?s = "(init_fields 44100)\<lparr>priv_stft_data := Some ?z\<rparr>"
  have z: "stft_data ?s = Some ?z" by (simp add: stft_data_def)
  have sh: "shape ?z = [2, 1, 2]" by simp
  show ?thesis
    using apply_mask_shape_law [OF z sh,
        of "\<lparr>mask_shape = [2, 1], mask = \<lparr>shape = [2, 1], elems = [1, 0]\<rparr>\<rparr>" False]
      apply_mask_shape_law [OF z sh,
        of "\<lparr>mask_shape = [2, 1, 1], mask = \<lparr>shape = [2, 1, 1], elems = [1, 0]\<rparr>\<rparr>" False]
    by simp
qed

end
